theory Spec2Isabelle
  imports Main "HOL-Library.Sublist"
begin

section \<open>Python values, errors and strings\<close>

text \<open>
  The generator is Python 2. An exception is a value of \<open>error\<close>; a function that can
  raise returns \<open>error + 'a\<close> with \<open>Inl\<close> for the exception. \<open>RuntimeError\<close> is the
  interpreter's "maximum recursion depth exceeded".
\<close>

datatype error =
    ValueError string
  | KeyError string
  | IndexError
  | AttributeError
  | TypeError
  | UnboundLocalError
  | RuntimeError

text \<open>
  The values a template dictionary holds in the code under study: \<open>None\<close>, a boolean
  or a string. \<open>truthy\<close> is Python's truth test (\<open>if x:\<close>, \<open>not x\<close>, \<open>x or y\<close>).
\<close>

datatype pyval = VNone | VBool bool | VStr string

fun truthy :: "pyval \<Rightarrow> bool" where
  "truthy VNone = False"
| "truthy (VBool b) = b"
| "truthy (VStr s) = (s \<noteq> [])"

text \<open>\<open>str.lower()\<close> and \<open>str.upper()\<close> on ASCII text, letter by letter.\<close>

definition lower_char :: "char \<Rightarrow> char" where
  "lower_char c =
     (case map_of (zip ''ABCDEFGHIJKLMNOPQRSTUVWXYZ'' ''abcdefghijklmnopqrstuvwxyz'') c of
        Some l \<Rightarrow> l
      | None \<Rightarrow> c)"

definition upper_char :: "char \<Rightarrow> char" where
  "upper_char c =
     (case map_of (zip ''abcdefghijklmnopqrstuvwxyz'' ''ABCDEFGHIJKLMNOPQRSTUVWXYZ'') c of
        Some l \<Rightarrow> l
      | None \<Rightarrow> c)"

definition lower :: "string \<Rightarrow> string" where
  "lower s = map lower_char s"

text \<open>\<open>str(n)\<close> of an integer: decimal digits, with a minus sign below zero.\<close>

fun digits :: "nat \<Rightarrow> string" where
  "digits n =
     (if n < 10 then [''0123456789'' ! n]
      else digits (n div 10) @ [''0123456789'' ! (n mod 10)])"

declare digits.simps [simp del]

definition str_int :: "int \<Rightarrow> string" where
  "str_int i = (if i < 0 then CHR ''-'' # digits (nat (- i)) else digits (nat i))"

text \<open>
  \<open>template % args\<close> for templates whose only conversions are \<open>%s\<close>: each \<open>%s\<close>
  takes the next argument, already converted to text.
\<close>

fun percent :: "string \<Rightarrow> string list \<Rightarrow> string" where
  "percent [] args = []"
| "percent [c] args = [c]"
| "percent (c # d # cs) args =
     (if c = CHR ''%'' \<and> d = CHR ''s''
      then (case args of a # rest \<Rightarrow> a @ percent cs rest | [] \<Rightarrow> percent cs [])
      else c # percent (d # cs) args)"

text \<open>\<open>sep.join(words)\<close> and \<open>s.replace(old, new)\<close> for a one-character \<open>old\<close>.\<close>

fun join :: "string \<Rightarrow> string list \<Rightarrow> string" where
  "join sep [] = []"
| "join sep [w] = w"
| "join sep (w # v # ws) = w @ sep @ join sep (v # ws)"

definition replace_char :: "char \<Rightarrow> string \<Rightarrow> string \<Rightarrow> string" where
  "replace_char old new s = concat (map (\<lambda>c. if c = old then new else [c]) s)"

text \<open>\<open>s.split(sep)\<close> on any of the characters \<open>P\<close> accepts; empty words are kept.\<close>

fun split_on :: "(char \<Rightarrow> bool) \<Rightarrow> string \<Rightarrow> string list" where
  "split_on P [] = [[]]"
| "split_on P (c # cs) =
     (if P c then [] # split_on P cs
      else (case split_on P cs of w # ws \<Rightarrow> (c # w) # ws | [] \<Rightarrow> [[c]]))"

section \<open>Helpers of \<open>utilities\<close>\<close>

text \<open>
  Modelled from the spec: \<open>utilities.CamelCase\<close> is not among the sources. The spec says
  only that a name is camel-cased; this is the usual reading of it, the words between
  \<open>_\<close> and \<open>-\<close> joined with the first letter of each in upper case. Every function
  below that calls \<open>utilities.CamelCase\<close> takes the camel-casing as its parameter
  \<open>camel\<close>; \<open>CamelCase\<close> stands for it in evaluations at concrete names only.
\<close>

definition title :: "string \<Rightarrow> string" where
  "title w = (case w of [] \<Rightarrow> [] | c # cs \<Rightarrow> upper_char c # cs)"

definition CamelCase :: "string \<Rightarrow> string" where
  "CamelCase s = concat (map title (split_on (\<lambda>c. c = CHR ''_'' \<or> c = CHR ''-'') s))"

section \<open>java\_generator.py: the Java language models\<close>

subsection \<open>Type tables\<close>

text \<open>
  Modelled from the spec: \<open>ImportDefinition\<close> (import\_definition.py) is not among the sources.
  It holds the imports a type needs and the template values to set on the element; the
  second argument defaults to no template values.
\<close>

datatype import_definition =
  ImportDefinition (import_names: "string list") (template_value_names: "string list")

definition JSON_STRING_IMPORT :: string where
  "JSON_STRING_IMPORT = ''com.google.api.client.json.JsonString''"

definition JSON_STRING_TEMPLATE_VALUE :: string where
  "JSON_STRING_TEMPLATE_VALUE = ''requiresJsonString''"

text \<open>
  \<open>JavaLanguageModel.TYPE_FORMAT_TO_DATATYPE_AND_IMPORTS\<close>, in the order of the source.
  A key is the json type and the json format, \<open>None\<close> for no format. The keys are
  distinct, so \<open>map_of\<close> is the dictionary's \<open>get\<close>.
\<close>

definition TYPE_FORMAT_TO_DATATYPE_AND_IMPORTS ::
    "((string \<times> string option) \<times> (string \<times> import_definition)) list" where
  "TYPE_FORMAT_TO_DATATYPE_AND_IMPORTS =
    [((''boolean'', None), (''Boolean'', ImportDefinition [''java.lang.Boolean''] [])),
     ((''any'', None), (''Object'', ImportDefinition [''java.lang.Object''] [])),
     ((''integer'', Some ''int16''), (''Short'', ImportDefinition [''java.lang.Short''] [])),
     ((''integer'', Some ''int32''), (''Integer'', ImportDefinition [''java.lang.Integer''] [])),
     ((''integer'', Some ''uint32''), (''Long'', ImportDefinition [''java.lang.Long''] [])),
     ((''number'', Some ''double''), (''Double'', ImportDefinition [''java.lang.Double''] [])),
     ((''number'', Some ''float''), (''Float'', ImportDefinition [''java.lang.Float''] [])),
     ((''object'', None), (''Object'', ImportDefinition [''java.lang.Object''] [])),
     ((''string'', None), (''String'', ImportDefinition [''java.lang.String''] [])),
     ((''string'', Some ''byte''), (''String'', ImportDefinition [''java.lang.String''] [])),
     ((''string'', Some ''date''),
        (''DateTime'', ImportDefinition [''com.google.api.client.util.DateTime''] [])),
     ((''string'', Some ''date-time''),
        (''DateTime'', ImportDefinition [''com.google.api.client.util.DateTime''] [])),
     ((''string'', Some ''int64''),
        (''Long'', ImportDefinition [''java.lang.Long'', JSON_STRING_IMPORT]
                     [JSON_STRING_TEMPLATE_VALUE])),
     ((''string'', Some ''uint64''),
        (''UnsignedLong'',
         ImportDefinition [''com.google.common.primitives.UnsignedLong'', JSON_STRING_IMPORT]
           [JSON_STRING_TEMPLATE_VALUE]))]"

text \<open>\<open>Java14LanguageModel.TYPE_FORMAT_TO_DATATYPE\<close>.\<close>

definition TYPE_FORMAT_TO_DATATYPE :: "((string \<times> string option) \<times> string) list" where
  "TYPE_FORMAT_TO_DATATYPE =
    [((''boolean'', None), ''java.lang.Boolean''),
     ((''any'', None), ''java.lang.Object''),
     ((''integer'', Some ''int16''), ''java.lang.Short''),
     ((''integer'', Some ''int32''), ''java.lang.Integer''),
     ((''integer'', Some ''uint32''), ''java.lang.Long''),
     ((''number'', Some ''double''), ''java.lang.Double''),
     ((''number'', Some ''float''), ''java.lang.Float''),
     ((''object'', None), ''java.lang.Object''),
     ((''string'', None), ''java.lang.String''),
     ((''string'', Some ''byte''), ''java.lang.String''),
     ((''string'', Some ''date''), ''com.google.api.client.util.DateTime''),
     ((''string'', Some ''date-time''), ''com.google.api.client.util.DateTime''),
     ((''string'', Some ''int64''), ''java.lang.Long''),
     ((''string'', Some ''uint64''), ''java.math.BigInteger'')]"

subsection \<open>\<open>GetCodeTypeFromDictionary\<close>\<close>

text \<open>
  A schema dictionary \<open>def_dict\<close> maps the keys \<open>type\<close> and \<open>format\<close> to strings.
  \<open>def_dict.get('type', 'string')\<close> is the case on \<open>def_dict ''type''\<close>; \<open>self._type_map\<close>
  is the class table, as \<open>__init__\<close> sets it. A pair (name, imports) is true in Python
  whatever it holds, so the \<open>if\<close> of \<open>JavaLanguageModel\<close> tests presence only; in
  \<open>Java14LanguageModel\<close> the value is the name itself, and an empty name would be false.
\<close>

definition JavaLanguageModel_GetCodeTypeFromDictionary ::
    "(string \<Rightarrow> string) \<Rightarrow> (string \<rightharpoonup> string) \<Rightarrow> string" where
  "JavaLanguageModel_GetCodeTypeFromDictionary camel def_dict =
     (let json_type = (case def_dict ''type'' of Some t \<Rightarrow> t | None \<Rightarrow> ''string'');
          json_format = def_dict ''format''
      in case map_of TYPE_FORMAT_TO_DATATYPE_AND_IMPORTS (json_type, json_format) of
           Some datatype_and_imports \<Rightarrow> fst datatype_and_imports
         | None \<Rightarrow> camel json_type)"

definition Java14LanguageModel_GetCodeTypeFromDictionary ::
    "(string \<Rightarrow> string) \<Rightarrow> (string \<rightharpoonup> string) \<Rightarrow> string" where
  "Java14LanguageModel_GetCodeTypeFromDictionary camel def_dict =
     (let json_type = (case def_dict ''type'' of Some t \<Rightarrow> t | None \<Rightarrow> ''string'');
          json_format = def_dict ''format''
      in case map_of TYPE_FORMAT_TO_DATATYPE (json_type, json_format) of
           Some native \<Rightarrow> if native \<noteq> [] then native else camel json_type
         | None \<Rightarrow> camel json_type)"

subsection \<open>\<open>_Int\<close>\<close>

text \<open>
  An integer \<open>DataValue\<close>, as \<open>_Int\<close> reads it: its \<open>value\<close>, an integer, and its
  \<open>code_type\<close>, the target type name its data type resolved to (data\_types.py is not
  among the sources, so the resolved name is a field here).
\<close>

record data_value =
  dv_value :: int
  dv_code_type :: string

definition JavaLanguageModel_code_types :: "(string \<times> string) list" where
  "JavaLanguageModel_code_types =
     [(''Short'', ''%s''), (''Integer'', ''%s''), (''Long'', ''%sL'')]"

definition Java14LanguageModel_code_types :: "(string \<times> string) list" where
  "Java14LanguageModel_code_types =
     [(''java.lang.Short'', ''%s''), (''java.lang.Integer'', ''%s''),
      (''java.lang.Long'', ''%sL'')]"

text \<open>
  The lookup \<open>code_types[data_value.code_type]\<close> raises \<open>KeyError\<close> for a name the
  table lacks, which the source turns into a \<open>ValueError\<close> with the message below.
\<close>

definition Int_error_message :: "data_value \<Rightarrow> string" where
  "Int_error_message data_value =
     percent (''Provided DataValue (%s) does not present an appropriate Java ''
              @ ''annotated code type (%s).'')
       [str_int (dv_value data_value), dv_code_type data_value]"

definition Int_literal :: "(string \<times> string) list \<Rightarrow> data_value \<Rightarrow> error + string" where
  "Int_literal code_types data_value =
     (case map_of code_types (dv_code_type data_value) of
        Some fmt \<Rightarrow> Inr (percent fmt [str_int (dv_value data_value)])
      | None \<Rightarrow> Inl (ValueError (Int_error_message data_value)))"

definition JavaLanguageModel_Int :: "data_value \<Rightarrow> error + string" where
  "JavaLanguageModel_Int = Int_literal JavaLanguageModel_code_types"

definition Java14LanguageModel_Int :: "data_value \<Rightarrow> error + string" where
  "Java14LanguageModel_Int = Int_literal Java14LanguageModel_code_types"

subsection \<open>Reserved names\<close>

definition JAVA_KEYWORDS :: "string list" where
  "JAVA_KEYWORDS =
    [''abstract'', ''assert'', ''boolean'', ''break'', ''byte'', ''case'', ''catch'', ''char'',
     ''class'', ''const'', ''continue'', ''default'', ''do'', ''double'', ''else'', ''enum'',
     ''extends'', ''final'', ''finally'', ''float'', ''for'', ''goto'', ''if'', ''implements'',
     ''import'', ''instanceof'', ''int'', ''interface'', ''long'', ''native'', ''new'',
     ''package'', ''private'', ''protected'', ''public'', ''return'', ''short'', ''static'',
     ''strictfp'', ''super'', ''switch'', ''synchronized'', ''this'', ''throw'', ''throws'',
     ''transient'', ''try'', ''void'', ''volatile'', ''while'']"

definition SPECIAL_CLASS_NAMES :: "string list" where
  "SPECIAL_CLASS_NAMES = [''entry'']"

definition RESERVED_CLASS_NAMES :: "string list" where
  "RESERVED_CLASS_NAMES =
     JAVA_KEYWORDS @ SPECIAL_CLASS_NAMES
       @ [''float'', ''integer'', ''object'', ''string'', ''true'', ''false'']"

subsection \<open>\<open>ToMemberName\<close>\<close>

text \<open>
  An \<open>Api\<close>, as the naming functions read it: its \<open>values\<close> dictionary, of which they
  use the key \<open>name\<close>. A code object built without an Api holds \<open>None\<close>, and
  \<open>the_api.values\<close> on it raises \<open>AttributeError\<close>; a dictionary without the key raises
  \<open>KeyError\<close>. \<open>camel_s[0]\<close> raises \<open>IndexError\<close> on the empty string.
\<close>

type_synonym api = "string \<rightharpoonup> string"

definition JavaLanguageModel_ToMemberName ::
    "(string \<Rightarrow> string) \<Rightarrow> string \<Rightarrow> api option \<Rightarrow> error + string" where
  "JavaLanguageModel_ToMemberName camel s the_api =
     (let camel_s = camel s in
      if lower s \<in> set RESERVED_CLASS_NAMES then
        (case the_api of
           None \<Rightarrow> Inl AttributeError
         | Some vals \<Rightarrow>
             (case vals ''name'' of
                None \<Rightarrow> Inl (KeyError ''name'')
              | Some n \<Rightarrow> Inr (percent ''%s%s'' [n, camel_s])))
      else (case camel_s of
              [] \<Rightarrow> Inl IndexError
            | c # cs \<Rightarrow> Inr (lower_char c # cs)))"

section \<open>template\_objects.py: code objects\<close>

subsection \<open>The object store\<close>

text \<open>
  A language model is a strategy object. The code objects call its \<open>ToMemberName\<close> and
  \<open>DefaultContainerPathForOwner\<close> and read its two delimiters; the base class
  \<open>LanguageModel\<close> is not among the sources, so a language model is the record of these four.
\<close>

record LanguageModel =
  lm_class_name_delimiter :: string
  lm_module_name_delimiter :: string
  lm_ToMemberName :: "string \<Rightarrow> api option \<Rightarrow> error + string"
  lm_DefaultContainerPathForOwner :: "string option \<Rightarrow> string option \<Rightarrow> string"

text \<open>
  Code objects refer to each other (\<open>_parent\<close>, \<open>_children\<close>, \<open>_module\<close>) and are
  updated in place, so they live in a store: a reference is an address, and the store
  gives the object at every address. The fields are the attributes of the source, which
  start with an underscore there:
  \<^item> \<open>co_def_dict\<close> is \<open>_def_dict\<close> (the property \<open>values\<close>), \<open>co_api\<close> is \<open>_api\<close>,
    \<open>co_children\<close>, \<open>co_parent\<close>, \<open>co_language_model\<close> and \<open>co_module\<close> are
    \<open>_children\<close>, \<open>_parent\<close>, \<open>_language_model\<close> and \<open>_module\<close>;
  \<^item> \<open>co_safeClassName\<close> and \<open>co_class_name\<close> are the attributes \<open>safeClassName\<close> and
    \<open>class_name\<close> that the schema classes of data\_types.py (not among the sources) add and
    \<open>ToSafeClassName\<close> reads;
  \<^item> \<open>co_is_module\<close> tells an instance of the subclass \<open>Module\<close>, whose attributes
    \<open>_path\<close>, \<open>_owner_name\<close>, \<open>_owner_domain\<close> and \<open>_name\<close> are the fields \<open>m_\<close>;
  \<^item> \<open>co_repr\<close> is the text Python gives for the object, \<open>'%s' % self\<close>. The classes
    of template\_objects.py define neither \<open>__str__\<close> nor \<open>__repr__\<close>, so for their
    instances it is the text of \<open>object\<close>: the qualified name of the class of the instance
    and its address in memory, as in
    \<open><googleapis.codegen.template_objects.CodeObject object at 0x7f3a5c0b2d10>\<close>.
  An absent value is Python's \<open>None\<close>. An instance of these classes is always true in
  a test (\<open>if self._parent:\<close>), so such a test asks whether the field is not \<open>None\<close>.
\<close>

type_synonym ref = nat

record code_object =
  co_def_dict :: "string \<rightharpoonup> pyval"
  co_api :: "api option"
  co_children :: "ref list"
  co_parent :: "ref option"
  co_language_model :: "LanguageModel option"
  co_module :: "ref option"
  co_safeClassName :: "string option"
  co_class_name :: "string option"
  co_is_module :: bool
  m_path :: "string option"
  m_owner_name :: "string option"
  m_owner_domain :: "string option"
  m_name :: "string option"
  co_repr :: string

type_synonym heap = "ref \<Rightarrow> code_object"

text \<open>\<open>'%s' % v\<close> for a value that may be \<open>None\<close>.\<close>

definition str_opt :: "string option \<Rightarrow> string" where
  "str_opt v = (case v of None \<Rightarrow> ''None'' | Some s \<Rightarrow> s)"

fun str_pyval :: "pyval \<Rightarrow> string" where
  "str_pyval VNone = ''None''"
| "str_pyval (VBool b) = (if b then ''True'' else ''False'')"
| "str_pyval (VStr s) = s"

subsection \<open>\<open>UseableInTemplates\<close>\<close>

definition GetTemplateValue :: "code_object \<Rightarrow> string \<Rightarrow> pyval" where
  "GetTemplateValue obj name = (case co_def_dict obj name of Some v \<Rightarrow> v | None \<Rightarrow> VNone)"

definition SetTemplateValue :: "heap \<Rightarrow> ref \<Rightarrow> string \<Rightarrow> pyval \<Rightarrow> heap" where
  "SetTemplateValue h x name v = h(x := (h x)\<lparr>co_def_dict := (co_def_dict (h x))(name \<mapsto> v)\<rparr>)"

subsection \<open>\<open>SetParent\<close>, \<open>SetLanguageModel\<close>\<close>

text \<open>
  \<open>list.remove(self)\<close> deletes the first occurrence and raises \<open>ValueError\<close> when there
  is none; \<open>list.append\<close> adds at the end.
\<close>

definition SetParent :: "heap \<Rightarrow> ref \<Rightarrow> ref option \<Rightarrow> error + heap" where
  "SetParent h x new_parent =
     (case (case co_parent (h x) of
              Some p \<Rightarrow>
                if x \<in> set (co_children (h p))
                then Inr (h(p := (h p)\<lparr>co_children := remove1 x (co_children (h p))\<rparr>))
                else Inl (ValueError ''list.remove(x): x not in list'')
            | None \<Rightarrow> Inr h) of
        Inl e \<Rightarrow> Inl e
      | Inr h1 \<Rightarrow>
          (let h2 = h1(x := (h1 x)\<lparr>co_parent := new_parent\<rparr>) in
           case new_parent of
             Some q \<Rightarrow> Inr (h2(q := (h2 q)\<lparr>co_children := co_children (h2 q) @ [x]\<rparr>))
           | None \<Rightarrow> Inr h2))"

definition SetLanguageModel :: "heap \<Rightarrow> ref \<Rightarrow> LanguageModel option \<Rightarrow> heap" where
  "SetLanguageModel h x lm = h(x := (h x)\<lparr>co_language_model := lm\<rparr>)"

text \<open>
  The two sides of the tree agree when every object is once in the children of its
  parent and in the children of no other object: \<open>x\<close> is counted in the children of \<open>p\<close>
  once if \<open>p\<close> is the parent of \<open>x\<close>, and not at all otherwise. \<open>SetParent_calls\<close> runs
  a sequence of calls \<open>x.SetParent(new_parent)\<close>, stopping at the first that raises.
\<close>

definition children_consistent :: "heap \<Rightarrow> bool" where
  "children_consistent h =
     (\<forall>x p. count_list (co_children (h p)) x = (if co_parent (h x) = Some p then 1 else 0))"

fun SetParent_calls :: "heap \<Rightarrow> (ref \<times> ref option) list \<Rightarrow> error + heap" where
  "SetParent_calls h [] = Inr h"
| "SetParent_calls h ((x, new_parent) # calls) =
     (case SetParent h x new_parent of
        Inl e \<Rightarrow> Inl e
      | Inr h1 \<Rightarrow> SetParent_calls h1 calls)"

subsection \<open>Walks up the parent chain\<close>

text \<open>
  The properties below call themselves on the parent. The first argument bounds the
  depth of that recursion: Python raises \<open>RuntimeError\<close> when the interpreter's stack is
  used up, which is what a chain of parents that never ends would come to.
\<close>

fun language_model :: "nat \<Rightarrow> heap \<Rightarrow> ref \<Rightarrow> error + (LanguageModel option \<times> heap)" where
  "language_model 0 h x = Inl RuntimeError"
| "language_model (Suc depth) h x =
     (case co_language_model (h x) of
        Some lm \<Rightarrow> Inr (Some lm, h)
      | None \<Rightarrow>
          (case co_parent (h x) of
             Some p \<Rightarrow>
               (case language_model depth h p of
                  Inl e \<Rightarrow> Inl e
                | Inr (lm, h1) \<Rightarrow> Inr (lm, h1(x := (h1 x)\<lparr>co_language_model := lm\<rparr>)))
           | None \<Rightarrow> Inr (None, h)))"

text \<open>
  The message of the error of \<open>module\<close>: the wire name of the object, or \<open><unnamed>\<close>,
  and the text of the object itself.
\<close>

definition module_error :: "heap \<Rightarrow> ref \<Rightarrow> error" where
  "module_error h x =
     ValueError (percent ''Asked for module of CodeObject without any: %s, %s''
       [str_pyval (case co_def_dict (h x) ''wireName'' of Some v \<Rightarrow> v | None \<Rightarrow> VStr ''<unnamed>''),
        co_repr (h x)])"

text \<open>
  \<open>module\<close> returns a Python reference; \<open>None\<close> is a reference too, so the result is an
  option, and \<open>fullClassName\<close> below tests it as the source does.
\<close>

fun module :: "nat \<Rightarrow> heap \<Rightarrow> ref \<Rightarrow> error + ref option" where
  "module 0 h x = Inl RuntimeError"
| "module (Suc depth) h x =
     (case co_module (h x) of
        Some m \<Rightarrow> Inr (Some m)
      | None \<Rightarrow>
          (case co_parent (h x) of
             Some p \<Rightarrow> module depth h p
           | None \<Rightarrow> Inl (module_error h x)))"

fun ancestors :: "nat \<Rightarrow> heap \<Rightarrow> ref \<Rightarrow> error + ref list" where
  "ancestors 0 h x = Inl RuntimeError"
| "ancestors (Suc depth) h x =
     (case co_parent (h x) of
        Some p \<Rightarrow> (case ancestors depth h p of Inl e \<Rightarrow> Inl e | Inr ps \<Rightarrow> Inr (ps @ [p]))
      | None \<Rightarrow> Inr [])"

definition full_path :: "nat \<Rightarrow> heap \<Rightarrow> ref \<Rightarrow> error + ref list" where
  "full_path depth h x =
     (case ancestors depth h x of Inl e \<Rightarrow> Inl e | Inr ps \<Rightarrow> Inr (ps @ [x]))"

subsection \<open>\<open>codeName\<close>\<close>

text \<open>
  \<open>MarkSafe\<close> (django\_helpers.py, not among the sources) marks a text as safe for the template
  engine and leaves its characters as they are, so the value read is the value stored.
  A wire name that is not a string has none of the string methods a language model
  calls on it. A call that raises returns the exception only: what it changed before
  raising is not kept.
\<close>

definition codeName :: "nat \<Rightarrow> heap \<Rightarrow> ref \<Rightarrow> error + (pyval \<times> heap)" where
  "codeName depth h x =
     (let code_name = GetTemplateValue (h x) ''codeName'' in
      if truthy code_name then Inr (code_name, h)
      else
        (case co_def_dict (h x) ''wireName'' of
           None \<Rightarrow> Inl (KeyError ''wireName'')
         | Some wire_name \<Rightarrow>
             (case language_model depth h x of
                Inl e \<Rightarrow> Inl e
              | Inr (None, h1) \<Rightarrow>
                  Inr (wire_name, SetTemplateValue h1 x ''codeName'' wire_name)
              | Inr (Some lm, h1) \<Rightarrow>
                  (case wire_name of
                     VStr s \<Rightarrow>
                       (case lm_ToMemberName lm s (co_api (h1 x)) of
                          Inl e \<Rightarrow> Inl e
                        | Inr member_name \<Rightarrow>
                            Inr (VStr member_name,
                                 SetTemplateValue h1 x ''codeName'' (VStr member_name)))
                   | _ \<Rightarrow> Inl AttributeError))))"

text \<open>
  What may happen to the tree between two reads of \<open>codeName\<close>: calls of
  \<open>SetLanguageModel\<close> and \<open>SetParent\<close> on any objects, in any order.
\<close>

datatype tree_change =
    ChangeLanguageModel ref "LanguageModel option"
  | ChangeParent ref "ref option"

fun tree_changes :: "heap \<Rightarrow> tree_change list \<Rightarrow> error + heap" where
  "tree_changes h [] = Inr h"
| "tree_changes h (ChangeLanguageModel y lm # rest) = tree_changes (SetLanguageModel h y lm) rest"
| "tree_changes h (ChangeParent y new_parent # rest) =
     (case SetParent h y new_parent of
        Inl e \<Rightarrow> Inl e
      | Inr h1 \<Rightarrow> tree_changes h1 rest)"

subsection \<open>\<open>Module\<close>\<close>

text \<open>
  \<open>self._name\<close> and \<open>self._path\<close> are \<open>None\<close> or a string; \<open>None\<close> and the empty string
  are false in a test. Reading \<open>path\<close> or \<open>name\<close> of an object that is not a \<open>Module\<close>,
  or an attribute of a language model that is \<open>None\<close>, raises \<open>AttributeError\<close>.
\<close>

definition truthy_str :: "string option \<Rightarrow> bool" where
  "truthy_str v = (case v of None \<Rightarrow> False | Some s \<Rightarrow> s \<noteq> [])"

definition SetPath :: "heap \<Rightarrow> ref \<Rightarrow> string \<Rightarrow> error + heap" where
  "SetPath h m new_path =
     (if truthy_str (m_name (h m))
      then Inl (ValueError ''SetPath called after first use of name property'')
      else Inr (h(m := (h m)\<lparr>m_path := Some new_path\<rparr>)))"

fun path :: "nat \<Rightarrow> heap \<Rightarrow> ref \<Rightarrow> error + (string \<times> heap)" where
  "path 0 h m = Inl RuntimeError"
| "path (Suc depth) h m =
     (if \<not> co_is_module (h m) then Inl AttributeError
      else
        (case (case co_parent (h m) of
                 Some p \<Rightarrow> path depth h p
               | None \<Rightarrow>
                   (case language_model depth h m of
                      Inl e \<Rightarrow> Inl e
                    | Inr (None, h1) \<Rightarrow> Inl AttributeError
                    | Inr (Some lm, h1) \<Rightarrow>
                        Inr (lm_DefaultContainerPathForOwner lm
                               (m_owner_name (h1 m)) (m_owner_domain (h1 m)), h1))) of
           Inl e \<Rightarrow> Inl e
         | Inr (base_path, h1) \<Rightarrow>
             Inr (join ''/''
                    (filter (\<lambda>x. x \<noteq> [])
                       (base_path # (case m_path (h1 m) of None \<Rightarrow> [] | Some s \<Rightarrow> [s]))),
                  h1)))"

definition name :: "nat \<Rightarrow> heap \<Rightarrow> ref \<Rightarrow> error + (string \<times> heap)" where
  "name depth h m =
     (if \<not> co_is_module (h m) then Inl AttributeError
      else if truthy_str (m_name (h m)) then Inr (str_opt (m_name (h m)), h)
      else
        (case path depth h m of
           Inl e \<Rightarrow> Inl e
         | Inr (module_path, h1) \<Rightarrow>
             (case language_model depth h1 m of
                Inl e \<Rightarrow> Inl e
              | Inr (None, h2) \<Rightarrow> Inl AttributeError
              | Inr (Some lm, h2) \<Rightarrow>
                  (let module_name =
                         replace_char (CHR ''/'') (lm_module_name_delimiter lm) module_path
                   in Inr (module_name, h2(m := (h2 m)\<lparr>m_name := Some module_name\<rparr>))))))"

subsection \<open>\<open>RelativeClassName\<close>, \<open>fullClassName\<close>\<close>

text \<open>
  \<open>a or b\<close> is \<open>a\<close> when \<open>a\<close> is true and \<open>b\<close> otherwise. \<open>self == other\<close> compares
  identities. When the name built so far is not empty and no language model is found,
  \<open>class_name_delimiter\<close> was never assigned and \<open>UnboundLocalError\<close> is raised; adding a
  value that is not a string to the name raises \<open>TypeError\<close>.
\<close>

definition py_or :: "pyval \<Rightarrow> pyval \<Rightarrow> pyval" where
  "py_or a b = (if truthy a then a else b)"

definition own_class_name :: "code_object \<Rightarrow> pyval" where
  "own_class_name obj =
     py_or (GetTemplateValue obj ''className'')
       (py_or (GetTemplateValue obj ''codeName'')
          (case co_def_dict obj ''name'' of Some v \<Rightarrow> v | None \<Rightarrow> VStr []))"

fun RelativeClassName :: "nat \<Rightarrow> heap \<Rightarrow> ref \<Rightarrow> ref option \<Rightarrow> error + (string \<times> heap)" where
  "RelativeClassName 0 h x other = Inl RuntimeError"
| "RelativeClassName (Suc depth) h x other =
     (if other = Some x then Inr ([], h)
      else
        (case (case co_parent (h x) of
                 Some p \<Rightarrow> RelativeClassName depth h p other
               | None \<Rightarrow> Inr ([], h)) of
           Inl e \<Rightarrow> Inl e
         | Inr (full_name, h1) \<Rightarrow>
             (case (if full_name \<noteq> [] then
                      (case language_model depth h1 x of
                         Inl e \<Rightarrow> Inl e
                       | Inr (None, h2) \<Rightarrow> Inl UnboundLocalError
                       | Inr (Some lm, h2) \<Rightarrow>
                           Inr (full_name @ lm_class_name_delimiter lm, h2))
                    else Inr (full_name, h1)) of
                Inl e \<Rightarrow> Inl e
              | Inr (delimited, h2) \<Rightarrow>
                  (case own_class_name (h2 x) of
                     VStr s \<Rightarrow> Inr (delimited @ s, h2)
                   | _ \<Rightarrow> Inl TypeError))))"

text \<open>
  \<open>fullClassName\<close> keeps both branches of the source: the one for a module that is
  true, and the one that returns the relative name alone.
\<close>

definition fullClassName :: "nat \<Rightarrow> heap \<Rightarrow> ref \<Rightarrow> error + (string \<times> heap)" where
  "fullClassName depth h x =
     (case module depth h x of
        Inl e \<Rightarrow> Inl e
      | Inr (Some m) \<Rightarrow>
          (case language_model depth h x of
             Inl e \<Rightarrow> Inl e
           | Inr (None, h1) \<Rightarrow> Inl AttributeError
           | Inr (Some lm, h1) \<Rightarrow>
               (case name depth h1 m of
                  Inl e \<Rightarrow> Inl e
                | Inr (module_name, h2) \<Rightarrow>
                    (case RelativeClassName depth h2 x None of
                       Inl e \<Rightarrow> Inl e
                     | Inr (relative, h3) \<Rightarrow>
                         Inr (module_name @ lm_class_name_delimiter lm @ relative, h3))))
      | Inr None \<Rightarrow> RelativeClassName depth h x None)"

section \<open>\<open>ToSafeClassName\<close>\<close>

text \<open>
  The loop over \<open>parent.full_path\<close>: the candidate is compared with the safe class name
  of each node from the root down to the parent, and prefixed with the class name of
  the parent at each node that has the candidate as it stands then.
\<close>

fun ToSafeClassName_loop :: "heap \<Rightarrow> ref \<Rightarrow> string \<Rightarrow> ref list \<Rightarrow> string" where
  "ToSafeClassName_loop h parent safe_class_name [] = safe_class_name"
| "ToSafeClassName_loop h parent safe_class_name (ancestor # rest) =
     ToSafeClassName_loop h parent
       (if co_safeClassName (h ancestor) = Some safe_class_name
        then percent ''%s%s'' [str_opt (co_class_name (h parent)), safe_class_name]
        else safe_class_name)
       rest"

text \<open>
  The reserved-word check that ends \<open>ToSafeClassName\<close>, on the candidate the loop left.
\<close>

definition ToSafeClassName_reserved ::
    "(string \<Rightarrow> string) \<Rightarrow> string \<Rightarrow> api option \<Rightarrow> string \<Rightarrow> error + string" where
  "ToSafeClassName_reserved camel s the_api safe_class_name =
     (if lower safe_class_name \<in> set RESERVED_CLASS_NAMES then
        (case the_api of
           None \<Rightarrow> Inl AttributeError
         | Some vals \<Rightarrow>
             (case vals ''name'' of
                None \<Rightarrow> Inl (KeyError ''name'')
              | Some n \<Rightarrow> Inr (percent ''%s%s'' [camel n, camel s])))
      else Inr safe_class_name)"

definition JavaLanguageModel_ToSafeClassName ::
    "(string \<Rightarrow> string) \<Rightarrow> nat \<Rightarrow> heap \<Rightarrow> string \<Rightarrow> api option \<Rightarrow> ref option
       \<Rightarrow> error + string" where
  "JavaLanguageModel_ToSafeClassName camel depth h s the_api parent =
     (case (case parent of
              None \<Rightarrow> Inr (camel s)
            | Some p \<Rightarrow>
                (case full_path depth h p of
                   Inl e \<Rightarrow> Inl e
                 | Inr nodes \<Rightarrow> Inr (ToSafeClassName_loop h p (camel s) nodes))) of
        Inl e \<Rightarrow> Inl e
      | Inr safe_class_name \<Rightarrow> ToSafeClassName_reserved camel s the_api safe_class_name)"

section \<open>The Java language model as a strategy object\<close>

text \<open>
  Modelled from the spec: \<open>utilities.ReversedDomainComponents\<close> is not among the sources. The
  default path of a module is derived from the domain of the owner: the components of
  the domain between its dots, last first, and none for no domain. The function below
  that calls it takes it as its parameter \<open>reversed\<close>.
\<close>

definition ReversedDomainComponents :: "string option \<Rightarrow> string list" where
  "ReversedDomainComponents s =
     (case s of
        None \<Rightarrow> []
      | Some d \<Rightarrow> if d = [] then [] else rev (split_on (\<lambda>c. c = CHR ''.'') d))"

definition JavaLanguageModel_DefaultContainerPathForOwner ::
    "(string option \<Rightarrow> string list) \<Rightarrow> string option \<Rightarrow> string option \<Rightarrow> string" where
  "JavaLanguageModel_DefaultContainerPathForOwner reversed unused_owner_name owner_domain =
     (if owner_domain = Some ''google.com'' then ''com/google/api/services''
      else join ''/'' (reversed owner_domain))"

text \<open>
  \<open>JavaLanguageModel()\<close>: the class name delimiter is the dot its \<open>__init__\<close> passes on;
  the module name delimiter is set by the base class (not among the sources) and is a
  parameter.
\<close>

definition JavaLanguageModel ::
    "(string \<Rightarrow> string) \<Rightarrow> (string option \<Rightarrow> string list) \<Rightarrow> string \<Rightarrow> LanguageModel" where
  "JavaLanguageModel camel reversed module_name_delimiter =
     \<lparr>lm_class_name_delimiter = ''.'',
      lm_module_name_delimiter = module_name_delimiter,
      lm_ToMemberName = JavaLanguageModel_ToMemberName camel,
      lm_DefaultContainerPathForOwner =
        JavaLanguageModel_DefaultContainerPathForOwner reversed\<rparr>"

section \<open>java\_generator.py: \<open>_HandleJsonString\<close>\<close>

text \<open>
  A data type, as the annotation reads it (data\_types.py is not among the sources): its
  \<open>json_type\<close>, the \<open>format\<close> entry of its values, and the \<open>_base_type\<close> that an array
  or a map wraps. A type without \<open>_base_type\<close> raises \<open>AttributeError\<close> when the loop
  asks for it. An element is a Property or a Parameter: its template dictionary and its
  data type.
\<close>

datatype data_type =
  DataType (json_type: string) (dt_format: "string option") (base_type: "data_type option")

record element =
  el_def_dict :: "string \<rightharpoonup> pyval"
  el_data_type :: data_type

text \<open>The \<open>while\<close> loop: the first type up the \<open>_base_type\<close> chain that is no collection.\<close>

fun leaf_type :: "data_type \<Rightarrow> error + data_type" where
  "leaf_type (DataType jt fmt base) =
     (if jt = ''array'' \<or> jt = ''map''
      then (case base of None \<Rightarrow> Inl AttributeError | Some b \<Rightarrow> leaf_type b)
      else Inr (DataType jt fmt base))"

definition Java14Generator_HandleJsonString :: "element \<Rightarrow> error + element" where
  "Java14Generator_HandleJsonString el =
     (case leaf_type (el_data_type el) of
        Inl e \<Rightarrow> Inl e
      | Inr leaf \<Rightarrow>
          if json_type leaf = ''string''
             \<and> (dt_format leaf = Some ''int64'' \<or> dt_format leaf = Some ''uint64'')
          then Inr (el\<lparr>el_def_dict := (el_def_dict el)(''requiresJsonString'' \<mapsto> VBool True)\<rparr>)
          else Inr el)"

text \<open>A leaf type under the given wrapper layers, outermost first.\<close>

fun wrapped :: "(string \<times> string option) list \<Rightarrow> data_type \<Rightarrow> data_type" where
  "wrapped [] leaf = leaf"
| "wrapped ((kind, fmt) # layers) leaf = DataType kind fmt (Some (wrapped layers leaf))"

section \<open>Example stores\<close>

text \<open>
  \<open>blank\<close> is a code object as \<open>CodeObject.__init__\<close> leaves it when it is given an empty
  dictionary and no Api, parent or language model. \<open>nested_store\<close> holds a schema
  \<open>Foo\<close> at address 0 and, nested in it, a schema \<open>Bar\<close> at address 1.
\<close>

definition blank :: code_object where
  "blank = \<lparr>co_def_dict = Map.empty, co_api = None, co_children = [], co_parent = None,
     co_language_model = None, co_module = None, co_safeClassName = None,
     co_class_name = None, co_is_module = False, m_path = None, m_owner_name = None,
     m_owner_domain = None, m_name = None,
     co_repr = ''<googleapis.codegen.template_objects.CodeObject object at 0x7f3a5c0b2d10>''\<rparr>"

definition nested_store :: heap where
  "nested_store =
     (\<lambda>_. blank)
       (0 := blank\<lparr>co_children := [1], co_safeClassName := Some ''Foo'',
                  co_class_name := Some ''Foo''\<rparr>,
        1 := blank\<lparr>co_parent := Some 0, co_safeClassName := Some ''Bar'',
                  co_class_name := Some ''Bar''\<rparr>)"

definition drive_api :: api where
  "drive_api = [''name'' \<mapsto> ''drive'']"

text \<open>
  \<open>java\<close> is a Java language model with the modelled helpers and the dot as module name
  delimiter. \<open>example_store\<close> holds the code object of an API \<open>drive\<close> at address 0,
  with a language model and the module at address 3; a child \<open>file_list\<close> of it at
  address 1; a code object without parent, module or language model at address 2; the
  module \<open>drive\<close> of the owner domain google.com at address 3; a module with an empty
  path and no owner domain at address 4; and a code object with an empty wire name at
  address 5.
\<close>

definition java :: LanguageModel where
  "java = JavaLanguageModel CamelCase ReversedDomainComponents ''.''"

definition example_store :: heap where
  "example_store =
     (\<lambda>_. blank)
       (0 := blank\<lparr>co_def_dict := [''wireName'' \<mapsto> VStr ''drive'', ''className'' \<mapsto> VStr ''Drive''],
                  co_api := Some drive_api, co_children := [1],
                  co_language_model := Some java, co_module := Some 3\<rparr>,
        1 := blank\<lparr>co_def_dict :=
                    [''wireName'' \<mapsto> VStr ''file_list'', ''className'' \<mapsto> VStr ''FileList''],
                  co_api := Some drive_api, co_parent := Some 0\<rparr>,
        2 := blank\<lparr>co_def_dict := [''wireName'' \<mapsto> VStr ''orphan''],
                  co_repr :=
                    ''<googleapis.codegen.template_objects.CodeObject object at 0x7f3a5c0b2e50>''\<rparr>,
        3 := blank\<lparr>co_is_module := True, co_language_model := Some java,
                  m_path := Some ''drive'', m_owner_domain := Some ''google.com'',
                  co_repr :=
                    ''<googleapis.codegen.template_objects.Module object at 0x7f3a5c0b2f90>''\<rparr>,
        4 := blank\<lparr>co_is_module := True, co_language_model := Some java, m_path := Some [],
                  co_repr :=
                    ''<googleapis.codegen.template_objects.Module object at 0x7f3a5c0b30d0>''\<rparr>,
        5 := blank\<lparr>co_def_dict := [''wireName'' \<mapsto> VStr []]\<rparr>)"

section \<open>Properties of the language models\<close>

lemma TYPE_FORMAT_TO_DATATYPE_nonempty:
  "map_of TYPE_FORMAT_TO_DATATYPE k = Some n \<Longrightarrow> n \<noteq> []"
proof -
  assume "map_of TYPE_FORMAT_TO_DATATYPE k = Some n"
  then have "(k, n) \<in> set TYPE_FORMAT_TO_DATATYPE"
    by (rule map_of_SomeD)
  then show "n \<noteq> []"
    by (auto simp: TYPE_FORMAT_TO_DATATYPE_def)
qed

text \<open>
  C1. \<open>GetCodeTypeFromDictionary\<close>, in both language models: a (type, format) pair the
  table holds gives exactly the name the table maps it to; a pair the table lacks gives
  the camel-cased json type; a dictionary without the key \<open>type\<close> gives what the same
  dictionary with the type "string" gives. The function is total: no pair makes it
  raise.
\<close>

theorem GetCodeTypeFromDictionary_mapped_or_camel:
  "(def_dict ''type'' = Some t \<longrightarrow>
      map_of TYPE_FORMAT_TO_DATATYPE_AND_IMPORTS (t, def_dict ''format'') = Some (n, imps) \<longrightarrow>
      JavaLanguageModel_GetCodeTypeFromDictionary camel def_dict = n)
   \<and> (def_dict ''type'' = Some t \<longrightarrow>
      map_of TYPE_FORMAT_TO_DATATYPE_AND_IMPORTS (t, def_dict ''format'') = None \<longrightarrow>
      JavaLanguageModel_GetCodeTypeFromDictionary camel def_dict = camel t)
   \<and> (def_dict ''type'' = Some t \<longrightarrow>
      map_of TYPE_FORMAT_TO_DATATYPE (t, def_dict ''format'') = Some n14 \<longrightarrow>
      Java14LanguageModel_GetCodeTypeFromDictionary camel def_dict = n14)
   \<and> (def_dict ''type'' = Some t \<longrightarrow>
      map_of TYPE_FORMAT_TO_DATATYPE (t, def_dict ''format'') = None \<longrightarrow>
      Java14LanguageModel_GetCodeTypeFromDictionary camel def_dict = camel t)
   \<and> (def_dict ''type'' = None \<longrightarrow>
      JavaLanguageModel_GetCodeTypeFromDictionary camel def_dict =
        JavaLanguageModel_GetCodeTypeFromDictionary camel (def_dict(''type'' \<mapsto> ''string''))
      \<and> Java14LanguageModel_GetCodeTypeFromDictionary camel def_dict =
        Java14LanguageModel_GetCodeTypeFromDictionary camel (def_dict(''type'' \<mapsto> ''string'')))"
proof -
  have java: "JavaLanguageModel_GetCodeTypeFromDictionary camel def_dict = n"
    if "def_dict ''type'' = Some t"
      "map_of TYPE_FORMAT_TO_DATATYPE_AND_IMPORTS (t, def_dict ''format'') = Some (n, imps)"
    using that by (simp add: JavaLanguageModel_GetCodeTypeFromDictionary_def)
  have java_absent: "JavaLanguageModel_GetCodeTypeFromDictionary camel def_dict = camel t"
    if "def_dict ''type'' = Some t"
      "map_of TYPE_FORMAT_TO_DATATYPE_AND_IMPORTS (t, def_dict ''format'') = None"
    using that by (simp add: JavaLanguageModel_GetCodeTypeFromDictionary_def)
  have java14: "Java14LanguageModel_GetCodeTypeFromDictionary camel def_dict = n14"
    if "def_dict ''type'' = Some t"
      "map_of TYPE_FORMAT_TO_DATATYPE (t, def_dict ''format'') = Some n14"
    using that TYPE_FORMAT_TO_DATATYPE_nonempty [OF that(2)]
    by (simp add: Java14LanguageModel_GetCodeTypeFromDictionary_def)
  have java14_absent: "Java14LanguageModel_GetCodeTypeFromDictionary camel def_dict = camel t"
    if "def_dict ''type'' = Some t"
      "map_of TYPE_FORMAT_TO_DATATYPE (t, def_dict ''format'') = None"
    using that by (simp add: Java14LanguageModel_GetCodeTypeFromDictionary_def)
  have missing: "JavaLanguageModel_GetCodeTypeFromDictionary camel def_dict =
        JavaLanguageModel_GetCodeTypeFromDictionary camel (def_dict(''type'' \<mapsto> ''string''))
      \<and> Java14LanguageModel_GetCodeTypeFromDictionary camel def_dict =
        Java14LanguageModel_GetCodeTypeFromDictionary camel (def_dict(''type'' \<mapsto> ''string''))"
    if "def_dict ''type'' = None"
    using that
    by (simp add: JavaLanguageModel_GetCodeTypeFromDictionary_def
        Java14LanguageModel_GetCodeTypeFromDictionary_def)
  from java java_absent java14 java14_absent missing show ?thesis by blast
qed

theorem GetCodeTypeFromDictionary_witness:
  "JavaLanguageModel_GetCodeTypeFromDictionary CamelCase
     [''type'' \<mapsto> ''string'', ''format'' \<mapsto> ''int64''] = ''Long''
   \<and> JavaLanguageModel_GetCodeTypeFromDictionary CamelCase [''type'' \<mapsto> ''widget''] = ''Widget''
   \<and> Java14LanguageModel_GetCodeTypeFromDictionary CamelCase
     [''type'' \<mapsto> ''string'', ''format'' \<mapsto> ''int64''] = ''java.lang.Long''
   \<and> Java14LanguageModel_GetCodeTypeFromDictionary CamelCase [''type'' \<mapsto> ''widget'']
       = ''Widget''
   \<and> JavaLanguageModel_GetCodeTypeFromDictionary CamelCase [''format'' \<mapsto> ''date'']
       = JavaLanguageModel_GetCodeTypeFromDictionary CamelCase
           [''format'' \<mapsto> ''date'', ''type'' \<mapsto> ''string'']
   \<and> Java14LanguageModel_GetCodeTypeFromDictionary CamelCase [''format'' \<mapsto> ''date'']
       = Java14LanguageModel_GetCodeTypeFromDictionary CamelCase
           [''format'' \<mapsto> ''date'', ''type'' \<mapsto> ''string'']"
proof -
  have widget: "CamelCase ''widget'' = ''Widget''"
    by (simp add: CamelCase_def title_def upper_char_def)
  have mapped:
    "JavaLanguageModel_GetCodeTypeFromDictionary CamelCase
       [''type'' \<mapsto> ''string'', ''format'' \<mapsto> ''int64''] = ''Long''"
    "Java14LanguageModel_GetCodeTypeFromDictionary CamelCase
       [''type'' \<mapsto> ''string'', ''format'' \<mapsto> ''int64''] = ''java.lang.Long''"
    using GetCodeTypeFromDictionary_mapped_or_camel
      [where def_dict = "[''type'' \<mapsto> ''string'', ''format'' \<mapsto> ''int64'']"
         and t = "''string''" and n = "''Long''"
         and imps = "ImportDefinition [''java.lang.Long'', JSON_STRING_IMPORT]
                       [JSON_STRING_TEMPLATE_VALUE]"
         and ?n14.0 = "''java.lang.Long''" and camel = CamelCase]
    by (simp_all add: TYPE_FORMAT_TO_DATATYPE_AND_IMPORTS_def TYPE_FORMAT_TO_DATATYPE_def)
  have absent:
    "JavaLanguageModel_GetCodeTypeFromDictionary CamelCase [''type'' \<mapsto> ''widget'']
       = CamelCase ''widget''"
    "Java14LanguageModel_GetCodeTypeFromDictionary CamelCase [''type'' \<mapsto> ''widget'']
       = CamelCase ''widget''"
    using GetCodeTypeFromDictionary_mapped_or_camel
      [where def_dict = "[''type'' \<mapsto> ''widget'']" and t = "''widget''"
         and camel = CamelCase]
    by (simp_all add: TYPE_FORMAT_TO_DATATYPE_AND_IMPORTS_def TYPE_FORMAT_TO_DATATYPE_def)
  have missing:
    "JavaLanguageModel_GetCodeTypeFromDictionary CamelCase [''format'' \<mapsto> ''date'']
       = JavaLanguageModel_GetCodeTypeFromDictionary CamelCase
           [''format'' \<mapsto> ''date'', ''type'' \<mapsto> ''string'']"
    "Java14LanguageModel_GetCodeTypeFromDictionary CamelCase [''format'' \<mapsto> ''date'']
       = Java14LanguageModel_GetCodeTypeFromDictionary CamelCase
           [''format'' \<mapsto> ''date'', ''type'' \<mapsto> ''string'']"
    using GetCodeTypeFromDictionary_mapped_or_camel
      [where def_dict = "[''format'' \<mapsto> ''date'']" and camel = CamelCase]
    by simp_all
  from mapped absent missing widget show ?thesis
    by simp
qed

lemma Int_error_message_eq:
  "Int_error_message data_value =
     ''Provided DataValue ('' @ str_int (dv_value data_value)
       @ '') does not present an appropriate Java annotated code type (''
       @ dv_code_type data_value @ '').''"
  by (simp add: Int_error_message_def)

lemma Int_error_message_mentions:
  "sublist (str_int (dv_value data_value)) (Int_error_message data_value)"
  "sublist (dv_code_type data_value) (Int_error_message data_value)"
proof -
  show "sublist (str_int (dv_value data_value)) (Int_error_message data_value)"
    unfolding Int_error_message_eq by (rule sublist_appendI)
  have "sublist (dv_code_type data_value) (dv_code_type data_value @ '').'')"
    by simp
  then show "sublist (dv_code_type data_value) (Int_error_message data_value)"
    unfolding Int_error_message_eq
    by (metis append.assoc sublist_appendI)
qed

text \<open>
  C7. \<open>_Int\<close>, in both language models, renders an integer \<open>DataValue\<close> by the format
  its resolved type name has in the table of the model: the decimal digits followed by
  \<open>L\<close> for the Long type, the plain digits for the Short and Integer types. For a type
  name the table lacks it raises a \<open>ValueError\<close> whose message holds both the digits of
  the value and the type name.
\<close>

theorem Int_literal_by_code_type:
  "(dv_code_type dv = ''Long'' \<longrightarrow>
      JavaLanguageModel_Int dv = Inr (str_int (dv_value dv) @ ''L''))
   \<and> (dv_code_type dv = ''Short'' \<or> dv_code_type dv = ''Integer'' \<longrightarrow>
      JavaLanguageModel_Int dv = Inr (str_int (dv_value dv)))
   \<and> (map_of JavaLanguageModel_code_types (dv_code_type dv) = None \<longrightarrow>
      (\<exists>msg. JavaLanguageModel_Int dv = Inl (ValueError msg)
         \<and> sublist (str_int (dv_value dv)) msg \<and> sublist (dv_code_type dv) msg))
   \<and> (dv_code_type dv = ''java.lang.Long'' \<longrightarrow>
      Java14LanguageModel_Int dv = Inr (str_int (dv_value dv) @ ''L''))
   \<and> (dv_code_type dv = ''java.lang.Short'' \<or> dv_code_type dv = ''java.lang.Integer'' \<longrightarrow>
      Java14LanguageModel_Int dv = Inr (str_int (dv_value dv)))
   \<and> (map_of Java14LanguageModel_code_types (dv_code_type dv) = None \<longrightarrow>
      (\<exists>msg. Java14LanguageModel_Int dv = Inl (ValueError msg)
         \<and> sublist (str_int (dv_value dv)) msg \<and> sublist (dv_code_type dv) msg))"
proof -
  have long: "JavaLanguageModel_Int dv = Inr (str_int (dv_value dv) @ ''L'')"
    if "dv_code_type dv = ''Long''"
    using that
    by (simp add: JavaLanguageModel_Int_def Int_literal_def JavaLanguageModel_code_types_def)
  have plain: "JavaLanguageModel_Int dv = Inr (str_int (dv_value dv))"
    if "dv_code_type dv = ''Short'' \<or> dv_code_type dv = ''Integer''"
    using that
    by (auto simp: JavaLanguageModel_Int_def Int_literal_def JavaLanguageModel_code_types_def)
  have other: "\<exists>msg. JavaLanguageModel_Int dv = Inl (ValueError msg)
         \<and> sublist (str_int (dv_value dv)) msg \<and> sublist (dv_code_type dv) msg"
    if "map_of JavaLanguageModel_code_types (dv_code_type dv) = None"
    using that Int_error_message_mentions [of dv]
    by (simp add: JavaLanguageModel_Int_def Int_literal_def)
  have long14: "Java14LanguageModel_Int dv = Inr (str_int (dv_value dv) @ ''L'')"
    if "dv_code_type dv = ''java.lang.Long''"
    using that
    by (simp add: Java14LanguageModel_Int_def Int_literal_def
        Java14LanguageModel_code_types_def)
  have plain14: "Java14LanguageModel_Int dv = Inr (str_int (dv_value dv))"
    if "dv_code_type dv = ''java.lang.Short'' \<or> dv_code_type dv = ''java.lang.Integer''"
    using that
    by (auto simp: Java14LanguageModel_Int_def Int_literal_def
        Java14LanguageModel_code_types_def)
  have other14: "\<exists>msg. Java14LanguageModel_Int dv = Inl (ValueError msg)
         \<and> sublist (str_int (dv_value dv)) msg \<and> sublist (dv_code_type dv) msg"
    if "map_of Java14LanguageModel_code_types (dv_code_type dv) = None"
    using that Int_error_message_mentions [of dv]
    by (simp add: Java14LanguageModel_Int_def Int_literal_def)
  from long plain other long14 plain14 other14 show ?thesis
    by blast
qed

theorem Int_literal_witness:
  "JavaLanguageModel_Int \<lparr>dv_value = 5, dv_code_type = ''Long''\<rparr> = Inr ''5L''
   \<and> JavaLanguageModel_Int \<lparr>dv_value = 5, dv_code_type = ''Integer''\<rparr> = Inr ''5''
   \<and> (\<exists>msg. JavaLanguageModel_Int \<lparr>dv_value = 5, dv_code_type = ''Double''\<rparr>
             = Inl (ValueError msg)
          \<and> sublist ''5'' msg \<and> sublist ''Double'' msg)
   \<and> Java14LanguageModel_Int \<lparr>dv_value = -12, dv_code_type = ''java.lang.Long''\<rparr>
        = Inr ''-12L''
   \<and> Java14LanguageModel_Int \<lparr>dv_value = 5, dv_code_type = ''java.lang.Short''\<rparr> = Inr ''5''
   \<and> (\<exists>msg. Java14LanguageModel_Int \<lparr>dv_value = 5, dv_code_type = ''java.math.BigInteger''\<rparr>
             = Inl (ValueError msg)
          \<and> sublist ''5'' msg \<and> sublist ''java.math.BigInteger'' msg)"
proof -
  have five: "str_int 5 = ''5''" "str_int (- 12) = ''-12''"
    by (simp_all add: str_int_def digits.simps)
  show ?thesis
    using Int_literal_by_code_type [of "\<lparr>dv_value = 5, dv_code_type = ''Long''\<rparr>"]
      Int_literal_by_code_type [of "\<lparr>dv_value = 5, dv_code_type = ''Integer''\<rparr>"]
      Int_literal_by_code_type [of "\<lparr>dv_value = 5, dv_code_type = ''Double''\<rparr>"]
      Int_literal_by_code_type [of "\<lparr>dv_value = - 12, dv_code_type = ''java.lang.Long''\<rparr>"]
      Int_literal_by_code_type [of "\<lparr>dv_value = 5, dv_code_type = ''java.lang.Short''\<rparr>"]
      Int_literal_by_code_type [of "\<lparr>dv_value = 5, dv_code_type = ''java.math.BigInteger''\<rparr>"]
    by (simp add: five JavaLanguageModel_code_types_def Java14LanguageModel_code_types_def)
qed

section \<open>Properties of the naming functions\<close>

lemma percent_two: "percent ''%s%s'' [a, b] = a @ b"
  by simp

lemma lower_append: "lower (a @ b) = lower a @ lower b"
  by (simp add: lower_def)

lemma length_lower: "length (lower s) = length s"
  by (simp add: lower_def)

lemma reserved_suffixes:
  "\<forall>w \<in> set RESERVED_CLASS_NAMES. \<forall>b \<in> set RESERVED_CLASS_NAMES.
     suffix b w \<longrightarrow> b = w \<or> (w = ''entry'' \<and> b = ''try'')"
  by (simp add: RESERVED_CLASS_NAMES_def JAVA_KEYWORDS_def SPECIAL_CLASS_NAMES_def
      suffix_to_prefix)

lemma prefixed_reserved:
  assumes "lower c \<in> set RESERVED_CLASS_NAMES"
  shows "lower (a @ c) \<in> set RESERVED_CLASS_NAMES
     \<longleftrightarrow> a = [] \<or> (lower a = ''en'' \<and> lower c = ''try'')"
proof
  assume whole: "lower (a @ c) \<in> set RESERVED_CLASS_NAMES"
  show "a = [] \<or> (lower a = ''en'' \<and> lower c = ''try'')"
  proof (cases "a = []")
    case True
    then show ?thesis
      by simp
  next
    case False
    have "suffix (lower c) (lower (a @ c))"
      by (simp add: lower_append suffix_def)
    with reserved_suffixes whole assms
    have "lower c = lower (a @ c) \<or> (lower (a @ c) = ''entry'' \<and> lower c = ''try'')"
      by blast
    moreover have "length (lower c) \<noteq> length (lower (a @ c))"
      using False by (simp add: length_lower)
    ultimately have whole_eq: "lower a @ lower c = ''entry''" and tail_eq: "lower c = ''try''"
      by (auto simp: lower_append)
    from whole_eq tail_eq have "lower a @ ''try'' = ''en'' @ ''try''"
      by simp
    then have "lower a = ''en''"
      by (simp only: append_same_eq)
    with tail_eq show ?thesis
      by simp
  qed
next
  assume "a = [] \<or> (lower a = ''en'' \<and> lower c = ''try'')"
  then show "lower (a @ c) \<in> set RESERVED_CLASS_NAMES"
  proof
    assume "a = []"
    with assms show ?thesis
      by simp
  next
    assume "lower a = ''en'' \<and> lower c = ''try''"
    then have "lower (a @ c) = ''entry''"
      by (simp add: lower_append)
    then show ?thesis
      by (simp add: RESERVED_CLASS_NAMES_def SPECIAL_CLASS_NAMES_def)
  qed
qed

lemma loop_no_match:
  "\<forall>a \<in> set nodes. co_safeClassName (h a) \<noteq> Some c \<Longrightarrow> ToSafeClassName_loop h p c nodes = c"
  by (induction nodes) auto

lemma loop_match_once:
  assumes "a \<in> set nodes" "co_safeClassName (h a) = Some c"
    and "\<forall>b \<in> set nodes. co_safeClassName (h b) \<noteq> Some (str_opt (co_class_name (h p)) @ c)"
  shows "ToSafeClassName_loop h p c nodes = str_opt (co_class_name (h p)) @ c"
  using assms
proof (induction nodes)
  case Nil
  then show ?case by simp
next
  case (Cons b nodes)
  show ?case
  proof (cases "co_safeClassName (h b) = Some c")
    case True
    with Cons.prems(3) show ?thesis
      by (simp add: loop_no_match)
  next
    case False
    with Cons show ?thesis
      by auto
  qed
qed

lemma loop_prefixes:
  "\<exists>k. ToSafeClassName_loop h p c nodes = concat (replicate k (str_opt (co_class_name (h p)))) @ c
       \<and> ((\<exists>a \<in> set nodes. co_safeClassName (h a) = Some c) \<longrightarrow> 1 \<le> k)"
proof (induction nodes arbitrary: c)
  case Nil
  show ?case
    by (rule exI [of _ 0]) simp
next
  case (Cons b nodes)
  let ?pcn = "str_opt (co_class_name (h p))"
  show ?case
  proof (cases "co_safeClassName (h b) = Some c")
    case True
    from Cons.IH [of "?pcn @ c"] obtain k where
      k: "ToSafeClassName_loop h p (?pcn @ c) nodes = concat (replicate k ?pcn) @ ?pcn @ c"
      by blast
    have "concat (replicate k ?pcn) @ ?pcn = concat (replicate (Suc k) ?pcn)"
      by (induction k) simp_all
    with k True show ?thesis
      by (intro exI [of _ "Suc k"]) (simp del: replicate.simps)
  next
    case False
    with Cons.IH [of c] show ?thesis
      by auto
  qed
qed


lemma CamelCase_examples:
  "CamelCase ''string'' = ''String''"
  "CamelCase ''drive'' = ''Drive''"
  "CamelCase ''class_'' = ''Class''"
  "CamelCase ''try'' = ''Try''"
  "CamelCase ''en'' = ''En''"
  "CamelCase ''foo'' = ''Foo''"
  "CamelCase ''barFoo'' = ''BarFoo''"
  by (simp_all add: CamelCase_def title_def upper_char_def)

lemma lower_examples:
  "lower ''string'' = ''string''"
  "lower ''String'' = ''string''"
  "lower ''class_'' = ''class_''"
  "lower ''Class'' = ''class''"
  "lower ''try'' = ''try''"
  "lower ''Try'' = ''try''"
  "lower ''EnTry'' = ''entry''"
  "lower ''BarFoo'' = ''barfoo''"
  "lower ''Foo'' = ''foo''"
  by (simp_all add: lower_def lower_char_def)

lemma reserved_examples:
  "''string'' \<in> set RESERVED_CLASS_NAMES"
  "''class'' \<in> set RESERVED_CLASS_NAMES"
  "''try'' \<in> set RESERVED_CLASS_NAMES"
  "''entry'' \<in> set RESERVED_CLASS_NAMES"
  "''class_'' \<notin> set RESERVED_CLASS_NAMES"
  "''barfoo'' \<notin> set RESERVED_CLASS_NAMES"
  "''foo'' \<notin> set RESERVED_CLASS_NAMES"
  by (simp_all add: RESERVED_CLASS_NAMES_def JAVA_KEYWORDS_def SPECIAL_CLASS_NAMES_def)

lemma nested_store_paths:
  "full_path 10 nested_store 1 = Inr [0, 1]"
  "full_path 10 nested_store 0 = Inr [0]"
  by (simp_all add: full_path_def nested_store_def blank_def numeral_nat)

text \<open>
  For the wire name \<open>class_\<close> the two functions part: the camel-cased form \<open>Class\<close> is
  reserved once lower-cased, the lower-cased wire name \<open>class_\<close> is not.
  \<open>ToSafeClassName\<close>, which tests the former, returns \<open>DriveClass\<close> in the API \<open>drive\<close>;
  \<open>ToMemberName\<close>, which tests the latter, adds no prefix and returns \<open>class\<close>, a
  keyword of Java, where its docstring speaks of a suitable Java variable name.
\<close>

lemma ToMemberName_class_unprefixed:
  "lower (CamelCase ''class_'') \<in> set RESERVED_CLASS_NAMES
   \<and> lower ''class_'' \<notin> set RESERVED_CLASS_NAMES
   \<and> JavaLanguageModel_ToSafeClassName CamelCase 10 nested_store ''class_'' (Some drive_api) None
       = Inr ''DriveClass''
   \<and> JavaLanguageModel_ToMemberName CamelCase ''class_'' (Some drive_api) = Inr ''class''"
  by (simp add: CamelCase_examples lower_examples reserved_examples drive_api_def
      JavaLanguageModel_ToMemberName_def JavaLanguageModel_ToSafeClassName_def
      ToSafeClassName_reserved_def lower_char_def)

text \<open>
  C2, as amended. Let the camel-cased form of a name be reserved once lower-cased, and
  let the Api hold a name.
  \<^item> \<open>ToSafeClassName\<close> returns the camel-cased name of the API followed by the
    camel-cased name, when the loop over the parent's path left the candidate alone (no
    parent, or no node of the path has the candidate as its safe class name).
  \<^item> \<open>ToMemberName\<close> returns the name of the API as the Api holds it, not camel-cased,
    followed by the camel-cased name, when the lower-cased wire name is reserved as well.
    Wire names of which only the camel-cased form is reserved, such as \<open>class_\<close> above,
    are left out of the statement.
  \<^item> \<open>reserved\<close> is the test of the code throughout, on the lower-cased name. The name
    returned passes that test, and is not reserved, unless the prefix is empty or the
    prefix is \<open>en\<close> and the name \<open>try\<close>, both lower-cased: of the reserved words only
    \<open>entry\<close> ends in another one.
\<close>

theorem reserved_name_prefix:
  assumes "lower (camel s) \<in> set RESERVED_CLASS_NAMES"
    and "the_api ''name'' = Some n"
  shows "(lower s \<in> set RESERVED_CLASS_NAMES \<longrightarrow>
       (\<exists>r. JavaLanguageModel_ToMemberName camel s (Some the_api) = Inr r
          \<and> r = n @ camel s
          \<and> (lower r \<in> set RESERVED_CLASS_NAMES
               \<longleftrightarrow> n = [] \<or> (lower n = ''en'' \<and> lower (camel s) = ''try''))))
     \<and> (\<exists>r. JavaLanguageModel_ToSafeClassName camel depth h s (Some the_api) None = Inr r
          \<and> r = camel n @ camel s
          \<and> (lower r \<in> set RESERVED_CLASS_NAMES
               \<longleftrightarrow> camel n = [] \<or> (lower (camel n) = ''en'' \<and> lower (camel s) = ''try'')))
     \<and> (full_path depth h p = Inr nodes \<longrightarrow>
        (\<forall>a \<in> set nodes. co_safeClassName (h a) \<noteq> Some (camel s)) \<longrightarrow>
       (\<exists>r. JavaLanguageModel_ToSafeClassName camel depth h s (Some the_api) (Some p) = Inr r
          \<and> r = camel n @ camel s
          \<and> (lower r \<in> set RESERVED_CLASS_NAMES
               \<longleftrightarrow> camel n = [] \<or> (lower (camel n) = ''en'' \<and> lower (camel s) = ''try''))))"
proof -
  have member: "JavaLanguageModel_ToMemberName camel s (Some the_api) = Inr (n @ camel s)"
    if "lower s \<in> set RESERVED_CLASS_NAMES"
    using that assms(2) by (simp add: JavaLanguageModel_ToMemberName_def)
  have top: "JavaLanguageModel_ToSafeClassName camel depth h s (Some the_api) None
        = Inr (camel n @ camel s)"
    using assms
    by (simp add: JavaLanguageModel_ToSafeClassName_def ToSafeClassName_reserved_def)
  have nested: "JavaLanguageModel_ToSafeClassName camel depth h s (Some the_api) (Some p)
        = Inr (camel n @ camel s)"
    if "full_path depth h p = Inr nodes"
      "\<forall>a \<in> set nodes. co_safeClassName (h a) \<noteq> Some (camel s)"
    using assms that loop_no_match [OF that(2), of p]
    by (simp add: JavaLanguageModel_ToSafeClassName_def ToSafeClassName_reserved_def)
  have raw: "lower (n @ camel s) \<in> set RESERVED_CLASS_NAMES
      \<longleftrightarrow> n = [] \<or> (lower n = ''en'' \<and> lower (camel s) = ''try'')"
    using assms(1) by (rule prefixed_reserved)
  have cameled: "lower (camel n @ camel s) \<in> set RESERVED_CLASS_NAMES
      \<longleftrightarrow> camel n = [] \<or> (lower (camel n) = ''en'' \<and> lower (camel s) = ''try'')"
    using assms(1) by (rule prefixed_reserved)
  from member raw have first: "lower s \<in> set RESERVED_CLASS_NAMES \<longrightarrow>
       (\<exists>r. JavaLanguageModel_ToMemberName camel s (Some the_api) = Inr r
          \<and> r = n @ camel s
          \<and> (lower r \<in> set RESERVED_CLASS_NAMES
               \<longleftrightarrow> n = [] \<or> (lower n = ''en'' \<and> lower (camel s) = ''try'')))"
    by simp
  from top cameled have second:
    "\<exists>r. JavaLanguageModel_ToSafeClassName camel depth h s (Some the_api) None = Inr r
          \<and> r = camel n @ camel s
          \<and> (lower r \<in> set RESERVED_CLASS_NAMES
               \<longleftrightarrow> camel n = [] \<or> (lower (camel n) = ''en'' \<and> lower (camel s) = ''try''))"
    by simp
  from nested cameled have third: "full_path depth h p = Inr nodes \<longrightarrow>
        (\<forall>a \<in> set nodes. co_safeClassName (h a) \<noteq> Some (camel s)) \<longrightarrow>
       (\<exists>r. JavaLanguageModel_ToSafeClassName camel depth h s (Some the_api) (Some p) = Inr r
          \<and> r = camel n @ camel s
          \<and> (lower r \<in> set RESERVED_CLASS_NAMES
               \<longleftrightarrow> camel n = [] \<or> (lower (camel n) = ''en'' \<and> lower (camel s) = ''try'')))"
    by simp
  from first second third show ?thesis
    by (intro conjI)
qed

theorem reserved_name_prefix_witness:
  "JavaLanguageModel_ToMemberName CamelCase ''string'' (Some drive_api) = Inr ''driveString''
   \<and> lower ''driveString'' \<notin> set RESERVED_CLASS_NAMES
   \<and> JavaLanguageModel_ToSafeClassName CamelCase 10 nested_store ''string'' (Some drive_api) None
       = Inr ''DriveString''
   \<and> JavaLanguageModel_ToSafeClassName CamelCase 10 nested_store ''string'' (Some drive_api)
       (Some 1) = Inr ''DriveString''
   \<and> lower ''DriveString'' \<notin> set RESERVED_CLASS_NAMES"
proof -
  have camel_reserved: "lower (CamelCase ''string'') \<in> set RESERVED_CLASS_NAMES"
    by (simp add: CamelCase_examples lower_examples reserved_examples)
  have wire_reserved: "lower ''string'' \<in> set RESERVED_CLASS_NAMES"
    by (simp add: lower_examples reserved_examples)
  have name: "drive_api ''name'' = Some ''drive''"
    by (simp add: drive_api_def)
  have nodes: "full_path 10 nested_store 1 = Inr [0, 1]"
    by (rule nested_store_paths)
  have no_match: "\<forall>a \<in> set [0, 1]. co_safeClassName (nested_store a) \<noteq> Some (CamelCase ''string'')"
    by (simp add: nested_store_def blank_def CamelCase_examples)
  have raw_prefix: "\<not> (''drive'' = [] \<or> (lower ''drive'' = ''en'' \<and> lower (CamelCase ''string'') = ''try''))"
    by (simp add: lower_def)
  have camel_prefix: "\<not> (CamelCase ''drive'' = []
      \<or> (lower (CamelCase ''drive'') = ''en'' \<and> lower (CamelCase ''string'') = ''try''))"
    by (simp add: CamelCase_examples lower_def lower_char_def)
  note prefix = reserved_name_prefix
    [where s = "''string''" and the_api = drive_api and n = "''drive''" and camel = CamelCase
       and depth = 10 and h = nested_store and p = 1 and nodes = "[0, 1]",
     OF camel_reserved name]
  from prefix wire_reserved nodes no_match raw_prefix camel_prefix
  have "JavaLanguageModel_ToMemberName CamelCase ''string'' (Some drive_api)
          = Inr (''drive'' @ CamelCase ''string'')
     \<and> lower (''drive'' @ CamelCase ''string'') \<notin> set RESERVED_CLASS_NAMES
     \<and> JavaLanguageModel_ToSafeClassName CamelCase 10 nested_store ''string'' (Some drive_api) None
          = Inr (CamelCase ''drive'' @ CamelCase ''string'')
     \<and> JavaLanguageModel_ToSafeClassName CamelCase 10 nested_store ''string'' (Some drive_api)
          (Some 1) = Inr (CamelCase ''drive'' @ CamelCase ''string'')
     \<and> lower (CamelCase ''drive'' @ CamelCase ''string'') \<notin> set RESERVED_CLASS_NAMES"
    by blast
  then show ?thesis
    by (simp add: CamelCase_examples)
qed

text \<open>
  The claim as stated fails. For the wire name \<open>string\<close> in the API \<open>drive\<close>,
  \<open>ToMemberName\<close> returns \<open>driveString\<close>, where camel-casing the name of the API would
  give \<open>DriveString\<close>. For the name \<open>try\<close> in an API called \<open>en\<close>, \<open>ToSafeClassName\<close>
  returns \<open>EnTry\<close>, which is reserved in its turn: its lower-cased form is \<open>entry\<close>.
\<close>

theorem reserved_name_prefix_counterexample:
  "lower (CamelCase ''string'') \<in> set RESERVED_CLASS_NAMES
   \<and> JavaLanguageModel_ToMemberName CamelCase ''string'' (Some drive_api) = Inr ''driveString''
   \<and> ''driveString'' \<noteq> CamelCase ''drive'' @ CamelCase ''string''
   \<and> lower (CamelCase ''try'') \<in> set RESERVED_CLASS_NAMES
   \<and> JavaLanguageModel_ToSafeClassName CamelCase 10 nested_store ''try''
        (Some [''name'' \<mapsto> ''en'']) None = Inr ''EnTry''
   \<and> lower ''EnTry'' \<in> set RESERVED_CLASS_NAMES"
  by (simp add: CamelCase_examples lower_examples reserved_examples drive_api_def
      JavaLanguageModel_ToMemberName_def JavaLanguageModel_ToSafeClassName_def
      ToSafeClassName_reserved_def lower_char_def)

text \<open>
  C9, as amended. When the camel-cased name is the safe class name of a node on the
  path of the parent (from the root down to the parent), \<open>ToSafeClassName\<close> prefixes the
  candidate with the class name of the parent before the reserved-word check, at least
  once. When no node of the path has the once-prefixed candidate as its safe class name,
  it is prefixed exactly once: the check sees the class name of the parent followed by
  the camel-cased name, and returns it when its lower-cased form is not reserved.
\<close>

theorem ToSafeClassName_prefixes_parent_class_name:
  assumes "full_path depth h p = Inr nodes"
    and "a \<in> set nodes"
    and "co_safeClassName (h a) = Some (camel s)"
  shows "(\<exists>k. 1 \<le> k
           \<and> JavaLanguageModel_ToSafeClassName camel depth h s the_api (Some p)
               = ToSafeClassName_reserved camel s the_api
                   (concat (replicate k (str_opt (co_class_name (h p)))) @ camel s))
     \<and> ((\<forall>b \<in> set nodes.
            co_safeClassName (h b) \<noteq> Some (str_opt (co_class_name (h p)) @ camel s)) \<longrightarrow>
          JavaLanguageModel_ToSafeClassName camel depth h s the_api (Some p)
            = ToSafeClassName_reserved camel s the_api
                (str_opt (co_class_name (h p)) @ camel s))
     \<and> ((\<forall>b \<in> set nodes.
            co_safeClassName (h b) \<noteq> Some (str_opt (co_class_name (h p)) @ camel s)) \<longrightarrow>
          lower (str_opt (co_class_name (h p)) @ camel s) \<notin> set RESERVED_CLASS_NAMES \<longrightarrow>
          JavaLanguageModel_ToSafeClassName camel depth h s the_api (Some p)
            = Inr (str_opt (co_class_name (h p)) @ camel s))"
proof -
  let ?pcn = "str_opt (co_class_name (h p))"
  have run: "JavaLanguageModel_ToSafeClassName camel depth h s the_api (Some p)
      = ToSafeClassName_reserved camel s the_api (ToSafeClassName_loop h p (camel s) nodes)"
    using assms(1) by (simp add: JavaLanguageModel_ToSafeClassName_def)
  from loop_prefixes [of h p "camel s" nodes] assms(2,3)
  obtain k where "1 \<le> k"
    "ToSafeClassName_loop h p (camel s) nodes = concat (replicate k ?pcn) @ camel s"
    by blast
  with run have many: "\<exists>k. 1 \<le> k
      \<and> JavaLanguageModel_ToSafeClassName camel depth h s the_api (Some p)
          = ToSafeClassName_reserved camel s the_api (concat (replicate k ?pcn) @ camel s)"
    by auto
  have once: "JavaLanguageModel_ToSafeClassName camel depth h s the_api (Some p)
      = ToSafeClassName_reserved camel s the_api (?pcn @ camel s)"
    if "\<forall>b \<in> set nodes. co_safeClassName (h b) \<noteq> Some (?pcn @ camel s)"
    using run loop_match_once [OF assms(2,3) that] by simp
  have plain: "JavaLanguageModel_ToSafeClassName camel depth h s the_api (Some p)
      = Inr (?pcn @ camel s)"
    if "\<forall>b \<in> set nodes. co_safeClassName (h b) \<noteq> Some (?pcn @ camel s)"
      "lower (?pcn @ camel s) \<notin> set RESERVED_CLASS_NAMES"
    using once [OF that(1)] that(2) by (simp add: ToSafeClassName_reserved_def)
  from many once plain show ?thesis
    by blast
qed

theorem ToSafeClassName_prefixes_witness:
  "JavaLanguageModel_ToSafeClassName CamelCase 10 nested_store ''foo'' (Some drive_api) (Some 1)
     = Inr ''BarFoo''"
proof -
  have nodes: "full_path 10 nested_store 1 = Inr [0, 1]"
    by (rule nested_store_paths)
  have member: "0 \<in> set [0, 1 :: nat]"
    by simp
  have match: "co_safeClassName (nested_store 0) = Some (CamelCase ''foo'')"
    by (simp add: nested_store_def blank_def CamelCase_examples)
  have pcn: "str_opt (co_class_name (nested_store 1)) = ''Bar''"
    by (simp add: nested_store_def blank_def str_opt_def)
  have no_second: "\<forall>b \<in> set [0, 1].
      co_safeClassName (nested_store b)
        \<noteq> Some (str_opt (co_class_name (nested_store 1)) @ CamelCase ''foo'')"
    by (simp add: nested_store_def blank_def str_opt_def CamelCase_examples)
  have free: "lower (str_opt (co_class_name (nested_store 1)) @ CamelCase ''foo'')
      \<notin> set RESERVED_CLASS_NAMES"
    by (simp add: pcn CamelCase_examples lower_examples reserved_examples del: One_nat_def)
  from ToSafeClassName_prefixes_parent_class_name
    [where camel = CamelCase and s = "''foo''" and the_api = "Some drive_api",
      OF nodes member match] no_second free
  have "JavaLanguageModel_ToSafeClassName CamelCase 10 nested_store ''foo'' (Some drive_api)
      (Some 1) = Inr (str_opt (co_class_name (nested_store 1)) @ CamelCase ''foo'')"
    by blast
  then show ?thesis
    by (simp add: pcn CamelCase_examples del: One_nat_def)
qed

text \<open>
  The claim as stated fails in its second half: nothing keeps two names apart. Under
  a parent \<open>Bar\<close> nested in \<open>Foo\<close>, the name \<open>foo\<close> is prefixed to \<open>BarFoo\<close>, which is
  also the class name of the different name \<open>barFoo\<close>.
\<close>

theorem ToSafeClassName_collision_counterexample:
  "''foo'' \<noteq> ''barFoo''
   \<and> JavaLanguageModel_ToSafeClassName CamelCase 10 nested_store ''foo'' (Some drive_api) (Some 1)
       = Inr ''BarFoo''
   \<and> JavaLanguageModel_ToSafeClassName CamelCase 10 nested_store ''barFoo'' (Some drive_api)
       (Some 1) = Inr ''BarFoo''"
proof -
  have candidates:
    "ToSafeClassName_loop nested_store 1 (CamelCase ''foo'') [0, 1] = ''BarFoo''"
    "ToSafeClassName_loop nested_store 1 (CamelCase ''barFoo'') [0, 1] = ''BarFoo''"
    by (simp_all add: CamelCase_examples nested_store_def blank_def str_opt_def)
  have not_reserved: "ToSafeClassName_reserved CamelCase s (Some drive_api) ''BarFoo'' = Inr ''BarFoo''"
    for s
    by (simp add: ToSafeClassName_reserved_def lower_examples reserved_examples)
  have names: "''foo'' \<noteq> ''barFoo''"
    by simp
  have "JavaLanguageModel_ToSafeClassName CamelCase 10 nested_store ''foo'' (Some drive_api)
      (Some 1) = Inr ''BarFoo''"
    "JavaLanguageModel_ToSafeClassName CamelCase 10 nested_store ''barFoo'' (Some drive_api)
      (Some 1) = Inr ''BarFoo''"
    unfolding JavaLanguageModel_ToSafeClassName_def
    by (simp_all only: nested_store_paths candidates not_reserved sum.case option.case)
  with names show ?thesis
    by blast
qed

section \<open>Properties of the object tree\<close>

lemma count_list_remove1_once:
  "count_list xs x = 1 \<Longrightarrow>
     count_list (remove1 x xs) y = (if y = x then 0 else count_list xs y)"
  by (induction xs) (auto split: if_splits)

lemma consistent_member:
  "children_consistent h \<Longrightarrow> x \<in> set (co_children (h p)) \<longleftrightarrow> co_parent (h x) = Some p"
  unfolding children_consistent_def
  by (metis count_list_0_iff zero_neq_one)

lemma SetParent_effect:
  assumes "children_consistent h"
  shows "\<exists>h1. SetParent h x new_parent = Inr h1
     \<and> (\<forall>y. co_parent (h1 y) = (if y = x then new_parent else co_parent (h y)))
     \<and> (\<forall>p. co_children (h1 p) =
           (if co_parent (h x) = Some p then remove1 x (co_children (h p)) else co_children (h p))
           @ (if new_parent = Some p then [x] else []))"
proof (cases "co_parent (h x)")
  case None
  show ?thesis
  proof (cases new_parent)
    case None
    with \<open>co_parent (h x) = None\<close> show ?thesis
      by (simp add: SetParent_def)
  next
    case (Some q)
    with \<open>co_parent (h x) = None\<close> show ?thesis
      by (simp add: SetParent_def Let_def)
  qed
next
  case (Some p0)
  with assms have mem: "x \<in> set (co_children (h p0))"
    by (simp add: consistent_member)
  show ?thesis
  proof (cases new_parent)
    case None
    with Some mem show ?thesis
      by (simp add: SetParent_def)
  next
    case new: (Some q)
    with Some mem show ?thesis
      by (simp add: SetParent_def Let_def)
  qed
qed

lemma consistent_after_move:
  fixes h h1 :: heap
  assumes "children_consistent h"
    and parents: "\<forall>y. co_parent (h1 y) = (if y = x then new_parent else co_parent (h y))"
    and children: "\<forall>p. co_children (h1 p) =
           (if co_parent (h x) = Some p then remove1 x (co_children (h p)) else co_children (h p))
           @ (if new_parent = Some p then [x] else [])"
  shows "children_consistent h1"
proof -
  have old: "count_list (co_children (h p)) y = (if co_parent (h y) = Some p then 1 else 0)"
    for y p
    using assms(1) by (simp add: children_consistent_def)
  have "count_list (co_children (h1 p)) y = (if co_parent (h1 y) = Some p then 1 else 0)" for y p
  proof (cases "co_parent (h x) = Some p")
    case True
    then have "count_list (co_children (h p)) x = 1"
      by (simp add: old)
    then have removed: "count_list (remove1 x (co_children (h p))) y
        = (if y = x then 0 else count_list (co_children (h p)) y)"
      by (rule count_list_remove1_once)
    from parents have parent: "co_parent (h1 y) = (if y = x then new_parent else co_parent (h y))"
      by (rule spec)
    from children True have "co_children (h1 p)
        = remove1 x (co_children (h p)) @ (if new_parent = Some p then [x] else [])"
      by simp
    with removed parent show ?thesis
      by (cases "new_parent = Some p"; cases "y = x") (simp_all add: old)
  next
    case False
    from parents have parent: "co_parent (h1 y) = (if y = x then new_parent else co_parent (h y))"
      by (rule spec)
    from children False have "co_children (h1 p)
        = co_children (h p) @ (if new_parent = Some p then [x] else [])"
      by simp
    with False parent show ?thesis
      by (cases "new_parent = Some p"; cases "y = x") (simp_all add: old)
  qed
  then show ?thesis
    by (simp add: children_consistent_def)
qed

lemma SetParent_consistent:
  assumes "children_consistent h"
  shows "\<exists>h1. SetParent h x new_parent = Inr h1 \<and> children_consistent h1"
  using SetParent_effect [OF assms, of x new_parent] consistent_after_move [OF assms]
  by blast

lemma SetParent_calls_consistent:
  "children_consistent h \<Longrightarrow> \<exists>h'. SetParent_calls h calls = Inr h' \<and> children_consistent h'"
proof (induction calls arbitrary: h)
  case Nil
  then show ?case by simp
next
  case (Cons call calls)
  obtain x new_parent where call: "call = (x, new_parent)"
    by (cases call)
  from SetParent_consistent [OF Cons.prems, of x new_parent] obtain h1 where
    "SetParent h x new_parent = Inr h1" "children_consistent h1"
    by blast
  with Cons.IH [of h1] call show ?case
    by simp
qed

text \<open>
  C3. From a store whose children lists agree with the parent pointers, every finite
  sequence of \<open>SetParent\<close> calls runs without error and ends in such a store: each
  object is once in the children of its current parent and in no other children list.
  One call \<open>x.SetParent(new_parent)\<close> makes \<open>new_parent\<close> the parent of \<open>x\<close>, removes
  \<open>x\<close> from the children of its previous parent and appends it to the children of the
  new one; no other list changes.
\<close>

theorem SetParent_keeps_children_consistent:
  assumes "children_consistent h"
  shows "(\<exists>h'. SetParent_calls h calls = Inr h' \<and> children_consistent h')
     \<and> (\<exists>h1. SetParent h x new_parent = Inr h1
          \<and> children_consistent h1
          \<and> co_parent (h1 x) = new_parent
          \<and> (\<forall>p. co_children (h1 p) =
                (if co_parent (h x) = Some p then remove1 x (co_children (h p))
                 else co_children (h p))
                @ (if new_parent = Some p then [x] else []))
          \<and> (\<forall>p. co_parent (h x) = Some p \<longrightarrow> new_parent \<noteq> Some p \<longrightarrow>
                x \<notin> set (co_children (h1 p))))"
proof -
  from SetParent_effect [OF assms, of x new_parent] obtain h1 where
    effect: "SetParent h x new_parent = Inr h1
     \<and> (\<forall>y. co_parent (h1 y) = (if y = x then new_parent else co_parent (h y)))
     \<and> (\<forall>p. co_children (h1 p) =
           (if co_parent (h x) = Some p then remove1 x (co_children (h p)) else co_children (h p))
           @ (if new_parent = Some p then [x] else []))"
    by (rule exE)
  then have consistent: "children_consistent h1"
    using consistent_after_move [OF assms] by blast
  from effect have parent: "co_parent (h1 x) = new_parent"
    by simp
  have "x \<notin> set (co_children (h1 p))" if "new_parent \<noteq> Some p" for p
    using that parent by (simp add: consistent_member [OF consistent])
  with effect consistent parent have "\<exists>h1. SetParent h x new_parent = Inr h1
          \<and> children_consistent h1
          \<and> co_parent (h1 x) = new_parent
          \<and> (\<forall>p. co_children (h1 p) =
                (if co_parent (h x) = Some p then remove1 x (co_children (h p))
                 else co_children (h p))
                @ (if new_parent = Some p then [x] else []))
          \<and> (\<forall>p. co_parent (h x) = Some p \<longrightarrow> new_parent \<noteq> Some p \<longrightarrow>
                x \<notin> set (co_children (h1 p)))"
    by blast
  with SetParent_calls_consistent [OF assms, of calls] show ?thesis
    by blast
qed

lemma nested_store_consistent: "children_consistent nested_store"
proof -
  have "count_list (co_children (nested_store p)) x
      = (if co_parent (nested_store x) = Some p then 1 else 0)" for x p
    by (cases "p = 0"; cases "p = 1"; cases "x = 0"; cases "x = 1")
      (simp_all add: nested_store_def blank_def)
  then show ?thesis
    by (simp add: children_consistent_def)
qed

theorem SetParent_witness:
  "children_consistent nested_store
   \<and> (\<exists>h'. SetParent_calls nested_store [(1, None), (0, Some 1), (1, Some 1)] = Inr h'
          \<and> children_consistent h')
   \<and> (\<exists>h1. SetParent nested_store 1 (Some 2) = Inr h1
          \<and> children_consistent h1
          \<and> co_parent (h1 1) = Some 2
          \<and> co_children (h1 0) = []
          \<and> co_children (h1 2) = [1]
          \<and> 1 \<notin> set (co_children (h1 0)))"
proof -
  note keeps = SetParent_keeps_children_consistent [OF nested_store_consistent,
      of "[(1, None), (0, Some 1), (1, Some 1)]" 1 "Some 2"]
  then obtain h1 where
    h1: "SetParent nested_store 1 (Some 2) = Inr h1" "children_consistent h1"
      "co_parent (h1 1) = Some 2"
      "\<forall>p. co_children (h1 p) =
                (if co_parent (nested_store 1) = Some p
                 then remove1 1 (co_children (nested_store p))
                 else co_children (nested_store p))
                @ (if Some 2 = Some p then [1] else [])"
      "\<forall>p. co_parent (nested_store 1) = Some p \<longrightarrow> Some 2 \<noteq> Some p \<longrightarrow>
                1 \<notin> set (co_children (h1 p))"
    by blast
  have old: "co_parent (nested_store 1) = Some 0" "co_children (nested_store 0) = [1]"
    "co_children (nested_store 2) = []"
    by (simp_all add: nested_store_def blank_def)
  from h1(4) [THEN spec, of 0] h1(4) [THEN spec, of 2] old
  have "co_children (h1 0) = []" "co_children (h1 2) = [1]"
    by simp_all
  moreover from h1(5) old have "1 \<notin> set (co_children (h1 0))"
    by simp
  ultimately show ?thesis
    using keeps nested_store_consistent h1(1,2,3) by blast
qed

section \<open>Properties of \<open>module\<close> and \<open>fullClassName\<close>\<close>

lemma module_never_None: "module depth h x \<noteq> Inr None"
  by (induction depth h x rule: module.induct) (auto split: option.splits)

lemma module_walk:
  "ancestors depth h x = Inr ps \<Longrightarrow>
   module (Suc depth) h x =
     (case find (\<lambda>y. co_module (h y) \<noteq> None) (x # rev ps) of
        Some y \<Rightarrow> Inr (co_module (h y))
      | None \<Rightarrow> Inl (module_error h (last (x # rev ps))))"
proof (induction depth arbitrary: x ps)
  case 0
  then show ?case by simp
next
  case (Suc depth)
  show ?case
  proof (cases "co_parent (h x)")
    case None
    with Suc.prems show ?thesis
      by (auto split: option.splits)
  next
    case (Some p)
    with Suc.prems obtain qs where qs: "ancestors depth h p = Inr qs" "ps = qs @ [p]"
      by (auto split: sum.splits)
    have root: "last (x # rev ps) = last (p # rev qs)"
      by (simp add: qs(2))
    show ?thesis
    proof (cases "co_module (h x)")
      case None
      then have step: "module (Suc (Suc depth)) h x = module (Suc depth) h p"
        using Some by simp
      from None have found: "find (\<lambda>y. co_module (h y) \<noteq> None) (x # rev ps)
          = find (\<lambda>y. co_module (h y) \<noteq> None) (p # rev qs)"
        by (simp add: qs(2))
      show ?thesis
        by (simp only: step Suc.IH [OF qs(1)] found root)
    next
      case (Some m)
      then show ?thesis
        by simp
    qed
  qed
qed


text \<open>
  C6. When the chain of parents of an object ends (\<open>ancestors\<close> returns it), reading
  \<open>module\<close> returns the module of the first object that has one assigned, going from
  the object itself up to the root. When no object of the chain has one, the read
  raises the \<open>ValueError\<close> of the source, for the root where the walk ended. It never
  returns \<open>None\<close>.
\<close>

theorem module_is_first_assigned:
  "(ancestors depth h x = Inr ps \<longrightarrow>
      module (Suc depth) h x =
        (case find (\<lambda>y. co_module (h y) \<noteq> None) (x # rev ps) of
           Some y \<Rightarrow> Inr (co_module (h y))
         | None \<Rightarrow> Inl (module_error h (last (x # rev ps)))))
   \<and> module depth h x \<noteq> Inr None"
  using module_walk [of depth h x ps] module_never_None [of depth h x]
  by blast

lemma example_store_ancestors:
  "ancestors 9 example_store 1 = Inr [0]"
  "ancestors 9 example_store 2 = Inr []"
  by (simp_all add: example_store_def blank_def numeral_nat)

lemma example_store_modules:
  "co_module (example_store 0) = Some 3"
  "co_module (example_store 1) = None"
  "co_module (example_store 2) = None"
  by (simp_all add: example_store_def blank_def)

lemma example_store_module_error:
  "module_error example_store 2
     = ValueError ''Asked for module of CodeObject without any: orphan, <googleapis.codegen.template_objects.CodeObject object at 0x7f3a5c0b2e50>''"
  by (simp add: module_error_def example_store_def blank_def)

theorem module_witness:
  "module 10 example_store 1 = Inr (Some 3)
   \<and> module 10 example_store 2
       = Inl (ValueError
           ''Asked for module of CodeObject without any: orphan, <googleapis.codegen.template_objects.CodeObject object at 0x7f3a5c0b2e50>'')"
proof -
  have ten: "Suc 9 = 10"
    by simp
  from module_is_first_assigned [of 9 example_store 1 "[0]"] example_store_ancestors(1)
  have "module 10 example_store 1 = Inr (Some 3)"
    unfolding ten by (simp add: example_store_modules del: One_nat_def)
  moreover
  from module_is_first_assigned [of 9 example_store 2 "[]"] example_store_ancestors(2)
  have "module 10 example_store 2 = Inl (module_error example_store 2)"
    unfolding ten by (simp add: example_store_modules del: One_nat_def)
  ultimately show ?thesis
    by (simp only: example_store_module_error simp_thms)
qed

lemma fullClassName_Inr_iff:
  "fullClassName depth h x = Inr (full, h') \<longleftrightarrow>
     (\<exists>m lm h1 mod_name h2 relative.
        module depth h x = Inr (Some m)
      \<and> language_model depth h x = Inr (Some lm, h1)
      \<and> name depth h1 m = Inr (mod_name, h2)
      \<and> RelativeClassName depth h2 x None = Inr (relative, h')
      \<and> full = mod_name @ lm_class_name_delimiter lm @ relative)"
  using module_never_None [of depth h x]
  by (auto simp: fullClassName_def split: sum.splits option.splits prod.splits)

lemma fullClassName_missing_module:
  assumes "ancestors depth h x = Inr ps"
    and "\<forall>y \<in> set (x # ps). co_module (h y) = None"
  shows "fullClassName (Suc depth) h x = Inl (module_error h (last (x # rev ps)))"
proof -
  from assms(2) have "find (\<lambda>y. co_module (h y) \<noteq> None) (x # rev ps) = None"
    by (simp add: find_None_iff)
  with module_walk [OF assms(1)]
  have "module (Suc depth) h x = Inl (module_error h (last (x # rev ps)))"
    by (simp del: module.simps find.simps)
  then show ?thesis
    by (simp add: fullClassName_def del: module.simps)
qed

text \<open>
  C10. \<open>fullClassName\<close> never returns a class name without the module: when no object
  of the parent chain has a module it raises the missing-module error of \<open>module\<close>;
  whatever it returns is the name of the module that \<open>module\<close> found, the class name
  delimiter of the language model and the relative class name, in this order; and it
  does return that whenever the language model, the name of the module and the relative
  class name are computed without error. The branch that returns the relative name
  alone is never taken, since \<open>module\<close> never returns \<open>None\<close>.
\<close>

theorem fullClassName_is_qualified:
  "(ancestors depth h x = Inr ps \<longrightarrow> (\<forall>y \<in> set (x # ps). co_module (h y) = None) \<longrightarrow>
      fullClassName (Suc depth) h x = Inl (module_error h (last (x # rev ps))))
   \<and> (fullClassName depth h x = Inr (full, h') \<longrightarrow>
        (\<exists>m lm h1 mod_name h2 relative.
            module depth h x = Inr (Some m)
          \<and> language_model depth h x = Inr (Some lm, h1)
          \<and> name depth h1 m = Inr (mod_name, h2)
          \<and> RelativeClassName depth h2 x None = Inr (relative, h')
          \<and> full = mod_name @ lm_class_name_delimiter lm @ relative))
   \<and> (module depth h x = Inr (Some m) \<longrightarrow>
        language_model depth h x = Inr (Some lm, h1) \<longrightarrow>
        name depth h1 m = Inr (mod_name, h2) \<longrightarrow>
        RelativeClassName depth h2 x None = Inr (relative, h3) \<longrightarrow>
        fullClassName depth h x
          = Inr (mod_name @ lm_class_name_delimiter lm @ relative, h3))
   \<and> module depth h x \<noteq> Inr None"
proof -
  have returns: "fullClassName depth h x
      = Inr (mod_name @ lm_class_name_delimiter lm @ relative, h3)"
    if "module depth h x = Inr (Some m)" "language_model depth h x = Inr (Some lm, h1)"
      "name depth h1 m = Inr (mod_name, h2)"
      "RelativeClassName depth h2 x None = Inr (relative, h3)"
    using that by (simp add: fullClassName_def)
  from fullClassName_missing_module [of depth h x ps]
    fullClassName_Inr_iff [of depth h x full h'] returns module_never_None [of depth h x]
  show ?thesis
    by blast
qed

lemma example_store_fullClassName_steps:
  "\<exists>h1 h2 h3. language_model 10 example_store 1 = Inr (Some java, h1)
     \<and> name 10 h1 3 = Inr (''com.google.api.services.drive'', h2)
     \<and> RelativeClassName 10 h2 1 None = Inr (''Drive.FileList'', h3)"
  by (simp add: example_store_def blank_def numeral_nat name_def java_def
      JavaLanguageModel_def JavaLanguageModel_DefaultContainerPathForOwner_def
      replace_char_def truthy_str_def own_class_name_def py_or_def GetTemplateValue_def
      Let_def str_opt_def)

lemma example_store_module: "module 10 example_store 1 = Inr (Some 3)"
  by (simp add: example_store_def blank_def numeral_nat)

theorem fullClassName_witness:
  "(\<exists>h'. fullClassName 10 example_store 1
            = Inr (''com.google.api.services.drive.Drive.FileList'', h'))
   \<and> fullClassName 10 example_store 2
       = Inl (ValueError
           ''Asked for module of CodeObject without any: orphan, <googleapis.codegen.template_objects.CodeObject object at 0x7f3a5c0b2e50>'')"
proof -
  from example_store_fullClassName_steps obtain h1 h2 h3 where
    steps: "language_model 10 example_store 1 = Inr (Some java, h1)"
      "name 10 h1 3 = Inr (''com.google.api.services.drive'', h2)"
      "RelativeClassName 10 h2 1 None = Inr (''Drive.FileList'', h3)"
    by blast
  from fullClassName_is_qualified
    [where depth = 10 and h = example_store and x = 1 and m = 3 and lm = java and ?h1.0 = h1
       and mod_name = "''com.google.api.services.drive''" and ?h2.0 = h2
       and relative = "''Drive.FileList''" and ?h3.0 = h3]
    example_store_module steps
  have "fullClassName 10 example_store 1
      = Inr (''com.google.api.services.drive'' @ lm_class_name_delimiter java
             @ ''Drive.FileList'', h3)"
    by blast
  then have dotted: "\<exists>h'. fullClassName 10 example_store 1
      = Inr (''com.google.api.services.drive.Drive.FileList'', h')"
    by (simp add: java_def JavaLanguageModel_def)
  have none: "\<forall>y \<in> set (2 # []). co_module (example_store y) = None"
    by (simp add: example_store_modules)
  have ten: "Suc 9 = 10"
    by simp
  from fullClassName_is_qualified [where depth = 9 and h = example_store and x = 2 and ps = "[]"]
    example_store_ancestors(2) none
  have "fullClassName (Suc 9) example_store 2 = Inl (module_error example_store (last (2 # rev [])))"
    by blast
  then have "fullClassName 10 example_store 2 = Inl (module_error example_store 2)"
    unfolding ten by simp
  with dotted show ?thesis
    by (simp only: example_store_module_error simp_thms)
qed

section \<open>Properties of the annotation\<close>

lemma leaf_type_wrapped:
  "\<forall>layer \<in> set layers. fst layer = ''array'' \<or> fst layer = ''map'' \<Longrightarrow>
     leaf_type (wrapped layers leaf) = leaf_type leaf"
  by (induction layers) auto

text \<open>
  C8, as amended. For a Property or Parameter whose data type is a string of format
  \<open>int64\<close> or \<open>uint64\<close> under any number of array and map layers, the annotation of the
  Java 1.14 generator sets the template value \<open>requiresJsonString\<close> to \<open>True\<close> and
  changes nothing else. The type name resolved for the pair is the Long type for
  \<open>int64\<close>; for \<open>uint64\<close> it is \<open>java.math.BigInteger\<close> in \<open>Java14LanguageModel\<close> and
  \<open>UnsignedLong\<close> in \<open>JavaLanguageModel\<close>.
\<close>

theorem HandleJsonString_marks_64_bit_strings:
  assumes "\<forall>layer \<in> set layers. fst layer = ''array'' \<or> fst layer = ''map''"
    and "el_data_type el = wrapped layers (DataType ''string'' (Some f) base)"
    and "f = ''int64'' \<or> f = ''uint64''"
  shows "Java14Generator_HandleJsonString el
           = Inr (el\<lparr>el_def_dict := (el_def_dict el)(''requiresJsonString'' \<mapsto> VBool True)\<rparr>)
     \<and> Java14LanguageModel_GetCodeTypeFromDictionary camel
           [''type'' \<mapsto> ''string'', ''format'' \<mapsto> f]
         = (if f = ''int64'' then ''java.lang.Long'' else ''java.math.BigInteger'')
     \<and> JavaLanguageModel_GetCodeTypeFromDictionary camel
           [''type'' \<mapsto> ''string'', ''format'' \<mapsto> f]
         = (if f = ''int64'' then ''Long'' else ''UnsignedLong'')"
proof -
  have "leaf_type (el_data_type el) = Inr (DataType ''string'' (Some f) base)"
    using assms(1,2) by (simp add: leaf_type_wrapped)
  with assms(3) have marked: "Java14Generator_HandleJsonString el
      = Inr (el\<lparr>el_def_dict := (el_def_dict el)(''requiresJsonString'' \<mapsto> VBool True)\<rparr>)"
    by (auto simp: Java14Generator_HandleJsonString_def)
  from assms(3) have java14: "Java14LanguageModel_GetCodeTypeFromDictionary camel
        [''type'' \<mapsto> ''string'', ''format'' \<mapsto> f]
      = (if f = ''int64'' then ''java.lang.Long'' else ''java.math.BigInteger'')"
    by (auto simp: Java14LanguageModel_GetCodeTypeFromDictionary_def TYPE_FORMAT_TO_DATATYPE_def)
  from assms(3) have java: "JavaLanguageModel_GetCodeTypeFromDictionary camel
        [''type'' \<mapsto> ''string'', ''format'' \<mapsto> f]
      = (if f = ''int64'' then ''Long'' else ''UnsignedLong'')"
    by (auto simp: JavaLanguageModel_GetCodeTypeFromDictionary_def
        TYPE_FORMAT_TO_DATATYPE_AND_IMPORTS_def)
  from marked java14 java show ?thesis
    by blast
qed

theorem HandleJsonString_witness:
  "Java14Generator_HandleJsonString
     \<lparr>el_def_dict = [''wireName'' \<mapsto> VStr ''sizes''],
      el_data_type =
        DataType ''array'' None
          (Some (DataType ''map'' None (Some (DataType ''string'' (Some ''int64'') None))))\<rparr>
     = Inr \<lparr>el_def_dict =
               [''wireName'' \<mapsto> VStr ''sizes'', ''requiresJsonString'' \<mapsto> VBool True],
            el_data_type =
              DataType ''array'' None
                (Some (DataType ''map'' None (Some (DataType ''string'' (Some ''int64'') None))))\<rparr>
   \<and> Java14LanguageModel_GetCodeTypeFromDictionary CamelCase
         [''type'' \<mapsto> ''string'', ''format'' \<mapsto> ''int64''] = ''java.lang.Long''
   \<and> JavaLanguageModel_GetCodeTypeFromDictionary CamelCase
         [''type'' \<mapsto> ''string'', ''format'' \<mapsto> ''int64''] = ''Long''"
  using HandleJsonString_marks_64_bit_strings
    [where layers = "[(''array'', None), (''map'', None)]" and f = "''int64''" and base = None
       and camel = CamelCase
       and el = "\<lparr>el_def_dict = [''wireName'' \<mapsto> VStr ''sizes''],
          el_data_type =
            DataType ''array'' None
              (Some (DataType ''map'' None (Some (DataType ''string'' (Some ''int64'') None))))\<rparr>"]
  by simp

text \<open>
  The claim as stated fails for \<open>uint64\<close>: the type resolved for it is not the 64-bit
  Long type, whose literals \<open>_Int\<close> writes with the suffix \<open>L\<close>. It is
  \<open>java.math.BigInteger\<close> (\<open>UnsignedLong\<close> in \<open>JavaLanguageModel\<close>), a name the table of
  \<open>_Int\<close> does not hold.
\<close>

theorem HandleJsonString_uint64_counterexample:
  "Java14LanguageModel_GetCodeTypeFromDictionary CamelCase
     [''type'' \<mapsto> ''string'', ''format'' \<mapsto> ''uint64''] \<noteq> ''java.lang.Long''
   \<and> Java14LanguageModel_GetCodeTypeFromDictionary CamelCase
     [''type'' \<mapsto> ''string'', ''format'' \<mapsto> ''uint64''] = ''java.math.BigInteger''
   \<and> map_of Java14LanguageModel_code_types ''java.math.BigInteger'' = None
   \<and> map_of Java14LanguageModel_code_types ''java.lang.Long'' = Some ''%sL''
   \<and> JavaLanguageModel_GetCodeTypeFromDictionary CamelCase
     [''type'' \<mapsto> ''string'', ''format'' \<mapsto> ''uint64''] = ''UnsignedLong''
   \<and> map_of JavaLanguageModel_code_types ''UnsignedLong'' = None
   \<and> map_of JavaLanguageModel_code_types ''Long'' = Some ''%sL''"
  by (simp add: Java14LanguageModel_GetCodeTypeFromDictionary_def TYPE_FORMAT_TO_DATATYPE_def
      JavaLanguageModel_GetCodeTypeFromDictionary_def TYPE_FORMAT_TO_DATATYPE_AND_IMPORTS_def
      Java14LanguageModel_code_types_def JavaLanguageModel_code_types_def)

section \<open>Properties of \<open>Module\<close>\<close>

lemma name_stores_result:
  "name depth h m = Inr (n, h1) \<Longrightarrow> m_name (h1 m) = Some n \<or> (n = [] \<and> h1 = h)"
  by (auto simp: name_def truthy_str_def str_opt_def Let_def
      split: if_splits sum.splits option.splits prod.splits)

lemma SetPath_fails_after_name:
  assumes "name depth h m = Inr (n, h1)" and "n \<noteq> []"
  shows "SetPath h1 m new_path
           = Inl (ValueError ''SetPath called after first use of name property'')"
  using name_stores_result [OF assms(1)] assms(2)
  by (auto simp: SetPath_def truthy_str_def)

lemma SetPath_before_name:
  assumes "m_name (h m) = None"
  shows "\<exists>h1. SetPath h m new_path = Inr h1 \<and> m_path (h1 m) = Some new_path
           \<and> m_name (h1 m) = None"
  using assms by (simp add: SetPath_def truthy_str_def)

lemma name_of_root_after_SetPath:
  assumes "co_is_module (h m)" "m_name (h m) = None" "co_parent (h m) = None"
    and "co_language_model (h m) = Some lm"
    and "SetPath h m new_path = Inr h1"
  shows "\<exists>h2. name (Suc (Suc depth)) h1 m
           = Inr (replace_char (CHR ''/'') (lm_module_name_delimiter lm)
                    (join ''/''
                       (filter (\<lambda>s. s \<noteq> [])
                          [lm_DefaultContainerPathForOwner lm (m_owner_name (h m))
                             (m_owner_domain (h m)),
                           new_path])), h2)"
  using assms
  by (auto simp: SetPath_def name_def truthy_str_def Let_def)

text \<open>
  The path of a module can be set until its name is read. After a read of \<open>name\<close> that
  returned a name which is not empty, \<open>SetPath\<close> raises the \<open>ValueError\<close> of the source.
  While \<open>_name\<close> is still \<open>None\<close>, \<open>SetPath\<close> succeeds, stores the path and leaves
  \<open>_name\<close> as it is, so the next call succeeds as well. For a module without parent the
  name read after it is the default path of the owner joined with the path last set,
  with every \<open>/\<close> replaced by the module name delimiter of the language model.
\<close>

theorem SetPath_until_name_is_read:
  "(name depth h m = Inr (n, h1) \<longrightarrow> n \<noteq> [] \<longrightarrow>
      SetPath h1 m new_path
        = Inl (ValueError ''SetPath called after first use of name property''))
   \<and> (m_name (h m) = None \<longrightarrow>
        (\<exists>h2. SetPath h m new_path = Inr h2 \<and> m_path (h2 m) = Some new_path
           \<and> m_name (h2 m) = None))
   \<and> (co_is_module (h m) \<longrightarrow> m_name (h m) = None \<longrightarrow> co_parent (h m) = None \<longrightarrow>
        co_language_model (h m) = Some lm \<longrightarrow> SetPath h m new_path = Inr h3 \<longrightarrow>
        (\<exists>h4. name (Suc (Suc depth)) h3 m
           = Inr (replace_char (CHR ''/'') (lm_module_name_delimiter lm)
                    (join ''/''
                       (filter (\<lambda>s. s \<noteq> [])
                          [lm_DefaultContainerPathForOwner lm (m_owner_name (h m))
                             (m_owner_domain (h m)),
                           new_path])), h4)))"
  using SetPath_fails_after_name [of depth h m n h1 new_path]
    SetPath_before_name [of h m new_path]
    name_of_root_after_SetPath [of h m lm new_path h3 depth]
  by blast

lemma example_store_module_3:
  "co_is_module (example_store 3)" "m_name (example_store 3) = None"
  "co_parent (example_store 3) = None" "co_language_model (example_store 3) = Some java"
  "m_owner_name (example_store 3) = None" "m_owner_domain (example_store 3) = Some ''google.com''"
  by (simp_all add: example_store_def blank_def)

lemma example_store_name_3:
  "\<exists>h1. name 10 example_store 3 = Inr (''com.google.api.services.drive'', h1)"
  by (simp add: example_store_def blank_def numeral_nat name_def java_def
      JavaLanguageModel_def JavaLanguageModel_DefaultContainerPathForOwner_def
      replace_char_def truthy_str_def Let_def)

theorem SetPath_witness:
  "(\<exists>h1. name 10 example_store 3 = Inr (''com.google.api.services.drive'', h1)
        \<and> SetPath h1 3 ''v2''
            = Inl (ValueError ''SetPath called after first use of name property''))
   \<and> (\<exists>h2. SetPath example_store 3 ''v2'' = Inr h2 \<and> m_path (h2 3) = Some ''v2''
        \<and> m_name (h2 3) = None
        \<and> (\<exists>h4. name 10 h2 3 = Inr (''com.google.api.services.v2'', h4)))"
proof -
  from example_store_name_3 obtain h1 where
    read: "name 10 example_store 3 = Inr (''com.google.api.services.drive'', h1)"
    by blast
  have nonempty: "''com.google.api.services.drive'' \<noteq> []"
    by simp
  from SetPath_until_name_is_read
    [where depth = 10 and h = example_store and m = 3
       and n = "''com.google.api.services.drive''" and ?h1.0 = h1 and new_path = "''v2''"]
    read nonempty
  have frozen: "SetPath h1 3 ''v2''
      = Inl (ValueError ''SetPath called after first use of name property'')"
    by blast
  from SetPath_until_name_is_read
    [where h = example_store and m = 3 and new_path = "''v2''"]
    example_store_module_3(2)
  obtain h2 where
    set: "SetPath example_store 3 ''v2'' = Inr h2" "m_path (h2 3) = Some ''v2''"
      "m_name (h2 3) = None"
    by blast
  have ten: "Suc (Suc 8) = 10"
    by simp
  from SetPath_until_name_is_read
    [where depth = 8 and h = example_store and m = 3 and new_path = "''v2''" and lm = java
       and ?h3.0 = h2]
    example_store_module_3 set(1)
  obtain h4 where "name (Suc (Suc 8)) h2 3
      = Inr (replace_char (CHR ''/'') (lm_module_name_delimiter java)
               (join ''/''
                  (filter (\<lambda>s. s \<noteq> [])
                     [lm_DefaultContainerPathForOwner java (m_owner_name (example_store 3))
                        (m_owner_domain (example_store 3)),
                      ''v2''])), h4)"
    by blast
  then have "name 10 h2 3 = Inr (''com.google.api.services.v2'', h4)"
    unfolding ten
    by (simp add: example_store_module_3 java_def JavaLanguageModel_def
        JavaLanguageModel_DefaultContainerPathForOwner_def replace_char_def)
  with read frozen set show ?thesis
    by blast
qed

text \<open>
  C4. The claim fails on the code for a module whose name is empty. The module at
  address 4 has an empty path and no owner domain; reading its \<open>name\<close> returns the empty
  string and stores it. An empty string is false in the test \<open>if self._name:\<close>, so the
  \<open>SetPath\<close> that follows does not raise, and the next read of \<open>name\<close> returns another
  name than the first.
\<close>

theorem SetPath_allowed_after_empty_name:
  "\<exists>h1 h2 h3. name 10 example_store 4 = Inr ([], h1)
     \<and> SetPath h1 4 ''model'' = Inr h2
     \<and> name 10 h2 4 = Inr (''model'', h3)"
  by (simp add: example_store_def blank_def numeral_nat name_def SetPath_def java_def
      JavaLanguageModel_def JavaLanguageModel_DefaultContainerPathForOwner_def
      ReversedDomainComponents_def replace_char_def truthy_str_def Let_def str_opt_def)

section \<open>Properties of \<open>codeName\<close>\<close>

lemma SetParent_keeps_def_dict:
  "SetParent h y new_parent = Inr h1 \<Longrightarrow> co_def_dict (h1 z) = co_def_dict (h z)"
  by (auto simp: SetParent_def Let_def split: option.splits if_splits)

lemma tree_changes_keep_def_dict:
  "tree_changes h changes = Inr h1 \<Longrightarrow> co_def_dict (h1 z) = co_def_dict (h z)"
proof (induction h changes rule: tree_changes.induct)
  case (1 h)
  then show ?case by simp
next
  case (2 h y lm rest)
  have "co_def_dict (SetLanguageModel h y lm z) = co_def_dict (h z)"
    by (simp add: SetLanguageModel_def)
  with 2 show ?case
    by simp
next
  case (3 h y new_parent rest)
  then show ?case
    by (auto split: sum.splits dest: SetParent_keeps_def_dict)
qed

lemma codeName_stores_result:
  "codeName depth h x = Inr (v, h1) \<Longrightarrow> GetTemplateValue (h1 x) ''codeName'' = v"
  by (auto simp: codeName_def Let_def SetTemplateValue_def GetTemplateValue_def
      split: if_splits sum.splits option.splits prod.splits pyval.splits)

lemma codeName_first_read:
  assumes "\<not> truthy (GetTemplateValue (h x) ''codeName'')"
    and "co_def_dict (h x) ''wireName'' = Some (VStr w)"
    and "language_model depth h x = Inr (active, h1)"
    and "(case active of None \<Rightarrow> Inr w | Some lm \<Rightarrow> lm_ToMemberName lm w (co_api (h1 x))) = Inr n"
  shows "codeName depth h x = Inr (VStr n, SetTemplateValue h1 x ''codeName'' (VStr n))"
  using assms by (cases active) (simp_all add: codeName_def)

lemma codeName_cached_across_changes:
  assumes "codeName depth h x = Inr (v, h1)" and "truthy v"
    and "tree_changes h1 changes = Inr h2"
  shows "codeName depth' h2 x = Inr (v, h2)"
proof -
  from assms(1) have "GetTemplateValue (h1 x) ''codeName'' = v"
    by (rule codeName_stores_result)
  with tree_changes_keep_def_dict [OF assms(3), of x]
  have "GetTemplateValue (h2 x) ''codeName'' = v"
    by (simp add: GetTemplateValue_def)
  with assms(2) show ?thesis
    by (simp add: codeName_def)
qed

text \<open>
  For an object without a true \<open>codeName\<close> in its dictionary, whose wire name is a
  string, the first read of \<open>codeName\<close> returns the wire name, passed through
  \<open>ToMemberName\<close> of the language model found up the parent chain if there is one, and
  stores it. If the name is not empty, every later read returns it, whatever calls of
  \<open>SetLanguageModel\<close> and \<open>SetParent\<close> are made in between.
\<close>

theorem codeName_computed_once:
  assumes "\<not> truthy (GetTemplateValue (h x) ''codeName'')"
    and "co_def_dict (h x) ''wireName'' = Some (VStr w)"
    and "language_model depth h x = Inr (active, h1)"
    and "(case active of None \<Rightarrow> Inr w | Some lm \<Rightarrow> lm_ToMemberName lm w (co_api (h1 x)))
           = Inr n"
  shows "\<exists>h2. codeName depth h x = Inr (VStr n, h2)
     \<and> GetTemplateValue (h2 x) ''codeName'' = VStr n
     \<and> (n \<noteq> [] \<longrightarrow>
          (\<forall>changes h3 depth'. tree_changes h2 changes = Inr h3 \<longrightarrow>
             codeName depth' h3 x = Inr (VStr n, h3)))"
proof -
  let ?h2 = "SetTemplateValue h1 x ''codeName'' (VStr n)"
  have first: "codeName depth h x = Inr (VStr n, ?h2)"
    using assms by (rule codeName_first_read)
  then have stored: "GetTemplateValue (?h2 x) ''codeName'' = VStr n"
    by (rule codeName_stores_result)
  have "codeName depth' h3 x = Inr (VStr n, h3)"
    if "n \<noteq> []" "tree_changes ?h2 changes = Inr h3" for changes h3 depth'
    using codeName_cached_across_changes [OF first _ that(2)] that(1) by simp
  with first stored show ?thesis
    by blast
qed


theorem codeName_witness:
  "\<exists>h2. codeName 10 example_store 1 = Inr (VStr ''fileList'', h2)
     \<and> (\<exists>h3. tree_changes h2 [ChangeLanguageModel 1 None, ChangeParent 1 (Some 2)] = Inr h3
           \<and> codeName 10 h3 1 = Inr (VStr ''fileList'', h3))"
proof -
  define h1 where "h1 = example_store(1 := (example_store 1)\<lparr>co_language_model := Some java\<rparr>)"
  have active: "language_model 10 example_store 1 = Inr (Some java, h1)"
    by (simp add: h1_def example_store_def blank_def numeral_nat)
  have no_override: "\<not> truthy (GetTemplateValue (example_store 1) ''codeName'')"
    by (simp add: GetTemplateValue_def example_store_def blank_def)
  have wire: "co_def_dict (example_store 1) ''wireName'' = Some (VStr ''file_list'')"
    by (simp add: example_store_def blank_def)
  have member: "(case Some java of
                   None \<Rightarrow> Inr ''file_list''
                 | Some lm \<Rightarrow> lm_ToMemberName lm ''file_list'' (co_api (h1 1)))
      = Inr ''fileList''"
    by (simp add: java_def JavaLanguageModel_def JavaLanguageModel_ToMemberName_def
        CamelCase_def title_def upper_char_def lower_def lower_char_def
        RESERVED_CLASS_NAMES_def JAVA_KEYWORDS_def SPECIAL_CLASS_NAMES_def)
  from codeName_computed_once [OF no_override wire active member]
  obtain h2 where
    first: "codeName 10 example_store 1 = Inr (VStr ''fileList'', h2)"
    and later: "\<forall>changes h3 depth'. tree_changes h2 changes = Inr h3 \<longrightarrow>
                  codeName depth' h3 1 = Inr (VStr ''fileList'', h3)"
    by auto
  from codeName_first_read [OF no_override wire active member] first
  have "h2 = SetTemplateValue h1 1 ''codeName'' (VStr ''fileList'')"
    by simp
  then obtain h3 where
    "tree_changes h2 [ChangeLanguageModel 1 None, ChangeParent 1 (Some 2)] = Inr h3"
    by (simp add: SetLanguageModel_def SetParent_def SetTemplateValue_def h1_def
        example_store_def blank_def Let_def)
  with first later show ?thesis
    by blast
qed

text \<open>
  C5. The claim fails on the code for a computed name that is empty. The object at
  address 5 has an empty wire name and no language model; the first read of \<open>codeName\<close>
  returns the empty string and stores it. An empty string is false in the test
  \<open>if not code_name:\<close>, so after \<open>SetLanguageModel\<close> the next read computes the name
  again, through \<open>ToMemberName\<close> of the new language model, which raises \<open>IndexError\<close>
  on the empty string where the claim has the stored value returned.
\<close>

theorem codeName_empty_not_cached:
  "codeName 10 example_store 5
     = Inr (VStr [], SetTemplateValue example_store 5 ''codeName'' (VStr []))
   \<and> codeName 10
         (SetLanguageModel (SetTemplateValue example_store 5 ''codeName'' (VStr [])) 5 (Some java))
         5
       = Inl IndexError"
  by (simp add: example_store_def blank_def numeral_nat codeName_def SetLanguageModel_def
      SetTemplateValue_def GetTemplateValue_def java_def JavaLanguageModel_def
      JavaLanguageModel_ToMemberName_def CamelCase_def title_def lower_def
      RESERVED_CLASS_NAMES_def JAVA_KEYWORDS_def SPECIAL_CLASS_NAMES_def Let_def)

end
